theory Spec2Isabelle
  imports Complex_Main
begin

section \<open>Numbers and vectors\<close>

text \<open>
  The game is written in JavaScript on top of p5.js. Every quantity of the simulation
  (coordinates, speeds, sizes, time steps) is a JavaScript number. The model of the whole
  game takes these to be mathematical reals. Where a property hangs on the rounding of
  IEEE doubles, the functions concerned are given a second time with the rounding written
  out, in the section on binary64 below. The only place where the non-real values of a
  JavaScript number decide the control flow is the frame time \<open>dt = 1.0 / frameRate()\<close> at
  the head of \<open>GameManager.tick\<close>, so the reading of \<open>frameRate()\<close> and the quotient are
  values of the type \<open>number\<close> below.
\<close>

datatype number = Fin real | PosInf | NegInf | NaN

text \<open>\<open>1.0 / r\<close> for a reading \<open>r\<close> of \<open>frameRate()\<close>.\<close>

fun one_over :: "number \<Rightarrow> number" where
  "one_over (Fin r) = (if r = 0 then PosInf else Fin (1 / r))"
| "one_over PosInf = Fin 0"
| "one_over NegInf = Fin 0"
| "one_over NaN = NaN"

text \<open>\<open>!dt\<close>: a number is falsy when it is zero or not-a-number.\<close>

fun falsy :: "number \<Rightarrow> bool" where
  "falsy (Fin r) = (r = 0)"
| "falsy NaN = True"
| "falsy _ = False"

fun isFinite :: "number \<Rightarrow> bool" where
  "isFinite (Fin r) = True"
| "isFinite _ = False"

fun isNaN :: "number \<Rightarrow> bool" where
  "isNaN NaN = True"
| "isNaN _ = False"

text \<open>A p5.Vector restricted to its two used coordinates. Vectors are values here, so the
  defensive \<open>copy()\<close> calls of the source are the identity.\<close>

record vector =
  vec_x :: real
  vec_y :: real

definition createVector :: "real \<Rightarrow> real \<Rightarrow> vector" where
  "createVector a b = \<lparr>vec_x = a, vec_y = b\<rparr>"

definition vadd :: "vector \<Rightarrow> vector \<Rightarrow> vector" where
  "vadd u v = createVector (vec_x u + vec_x v) (vec_y u + vec_y v)"

definition vsub :: "vector \<Rightarrow> vector \<Rightarrow> vector" where
  "vsub u v = createVector (vec_x u - vec_x v) (vec_y u - vec_y v)"

definition vmult :: "vector \<Rightarrow> real \<Rightarrow> vector" where
  "vmult u k = createVector (vec_x u * k) (vec_y u * k)"

definition vmag :: "vector \<Rightarrow> real" where
  "vmag u = sqrt (vec_x u * vec_x u + vec_y u * vec_y u)"

definition vdist :: "vector \<Rightarrow> vector \<Rightarrow> real" where
  "vdist u v = vmag (vsub v u)"

section \<open>MathHelper\<close>

definition positionInBounds :: "vector \<Rightarrow> vector \<Rightarrow> vector \<Rightarrow> bool" where
  "positionInBounds position boundsPosition boundsSize =
     (vec_x position > vec_x boundsPosition - vec_x boundsSize / 2 \<and>
      vec_x position < vec_x boundsPosition + vec_x boundsSize / 2 \<and>
      vec_y position > vec_y boundsPosition - vec_y boundsSize / 2 \<and>
      vec_y position < vec_y boundsPosition + vec_y boundsSize / 2)"

definition VECTOR_ZERO :: vector where "VECTOR_ZERO = createVector 0 0"
definition VECTOR_ONE :: vector where "VECTOR_ONE = createVector 1 1"
definition VECTOR_LEFT :: vector where "VECTOR_LEFT = createVector (-1) 0"
definition VECTOR_RIGHT :: vector where "VECTOR_RIGHT = createVector 1 0"
definition VECTOR_UP :: vector where "VECTOR_UP = createVector 0 (-1)"
definition VECTOR_DOWN :: vector where "VECTOR_DOWN = createVector 0 1"

text \<open>The rectangle of the specification: centred at \<open>c\<close>, of full extents \<open>s\<close>, without
  its edges. A point is strictly inside when it is closer to the centre than half the
  extent on both axes.\<close>

definition strictly_inside_rect :: "vector \<Rightarrow> vector \<Rightarrow> vector \<Rightarrow> bool" where
  "strictly_inside_rect p c s =
     (\<bar>vec_x p - vec_x c\<bar> < vec_x s / 2 \<and> \<bar>vec_y p - vec_y c\<bar> < vec_y s / 2)"

text \<open>A point lies on an edge line of that rectangle when one of its coordinates equals
  \<open>c \<plusminus> s / 2\<close> on that axis.\<close>

definition on_boundary_edge :: "vector \<Rightarrow> vector \<Rightarrow> vector \<Rightarrow> bool" where
  "on_boundary_edge p c s =
     (vec_x p = vec_x c - vec_x s / 2 \<or> vec_x p = vec_x c + vec_x s / 2 \<or>
      vec_y p = vec_y c - vec_y s / 2 \<or> vec_y p = vec_y c + vec_y s / 2)"

section \<open>Sprite\<close>

text \<open>An image is identified by the file name it was loaded from; \<open>None\<close> is JavaScript's
  \<open>undefined\<close>, the value of an array read outside the array.\<close>

type_synonym img = string

record sprite =
  sprite_image :: "img option"
  sprite_size :: vector
  position :: vector
  velocity :: vector

definition Sprite_tick :: "real \<Rightarrow> 'a sprite_scheme \<Rightarrow> 'a sprite_scheme" where
  "Sprite_tick dt s = s\<lparr>position := vadd (position s) (vmult (velocity s) dt)\<rparr>"

definition setVelocity :: "vector \<Rightarrow> 'a sprite_scheme \<Rightarrow> 'a sprite_scheme" where
  "setVelocity v s = s\<lparr>velocity := v\<rparr>"

definition getVelocity :: "'a sprite_scheme \<Rightarrow> vector" where
  "getVelocity s = velocity s"

definition setPosition :: "vector \<Rightarrow> 'a sprite_scheme \<Rightarrow> 'a sprite_scheme" where
  "setPosition p s = s\<lparr>position := p\<rparr>"

definition getPosition :: "'a sprite_scheme \<Rightarrow> vector" where
  "getPosition s = position s"

definition getSize :: "'a sprite_scheme \<Rightarrow> vector" where
  "getSize s = sprite_size s"

section \<open>Fence\<close>

type_synonym fence = sprite

definition Fence_image :: img where "Fence_image = ''fence.png''"
definition Fence_size :: vector where "Fence_size = vmult VECTOR_ONE 400"
definition Fence_edgeWidth :: real where "Fence_edgeWidth = 100"
definition Fence_openingSize :: vector where
  "Fence_openingSize = createVector 100 Fence_edgeWidth"

definition Fence_new :: "vector \<Rightarrow> fence" where
  "Fence_new pos =
     \<lparr>sprite_image = Some Fence_image, sprite_size = Fence_size,
      position = pos, velocity = VECTOR_ZERO\<rparr>"

definition isOverlapping :: "fence \<Rightarrow> vector \<Rightarrow> bool" where
  "isOverlapping f pos =
     (let outerFenceBoundSize = vadd (getSize f) (vmult VECTOR_ONE (Fence_edgeWidth / 2));
          innerFenceBoundSize = vsub (getSize f) (vmult VECTOR_ONE (Fence_edgeWidth / 2));
          openingPosition = vsub (getPosition f) (createVector 0 (vec_y (sprite_size f) / 2));
          isInOuterFenceBound = positionInBounds pos (position f) outerFenceBoundSize;
          isInInnerFenceBound = positionInBounds pos (position f) innerFenceBoundSize;
          isInOpening = positionInBounds pos openingPosition Fence_openingSize
      in isInOuterFenceBound \<and> \<not> isInInnerFenceBound \<and> \<not> isInOpening)"

text \<open>The three rectangles of the specification of \<open>Fence.isOverlapping\<close>, all with
  centre and extents as the specification words them.\<close>

definition outer_bound_size :: "fence \<Rightarrow> vector" where
  "outer_bound_size f =
     createVector (vec_x (sprite_size f) + Fence_edgeWidth / 2)
                  (vec_y (sprite_size f) + Fence_edgeWidth / 2)"

definition inner_bound_size :: "fence \<Rightarrow> vector" where
  "inner_bound_size f =
     createVector (vec_x (sprite_size f) - Fence_edgeWidth / 2)
                  (vec_y (sprite_size f) - Fence_edgeWidth / 2)"

definition opening_centre :: "fence \<Rightarrow> vector" where
  "opening_centre f =
     createVector (vec_x (position f)) (vec_y (position f) - vec_y (sprite_size f) / 2)"

text \<open>A point is strictly outside a rectangle when it is neither strictly inside it nor
  on its edge: it is farther from the centre than half the extent on some axis.\<close>

definition strictly_outside_rect :: "vector \<Rightarrow> vector \<Rightarrow> vector \<Rightarrow> bool" where
  "strictly_outside_rect p c s =
     (\<bar>vec_x p - vec_x c\<bar> > vec_x s / 2 \<or> \<bar>vec_y p - vec_y c\<bar> > vec_y s / 2)"

section \<open>AnimatingSprite\<close>

record animating_sprite = sprite +
  imageLeftArray :: "img list"
  imageRightArray :: "img list"
  imageUpArray :: "img list"
  imageDownArray :: "img list"
  distancePerFrame :: real
  elapsedTime :: real
  lastImage :: "img option"

text \<open>\<open>arr[i]\<close> for an integer-valued number \<open>i\<close>: \<open>undefined\<close> outside the array.\<close>

definition array_get :: "'a list \<Rightarrow> int \<Rightarrow> 'a option" where
  "array_get arr i = (if 0 \<le> i \<and> i < int (length arr) then Some (arr ! nat i) else None)"

text \<open>\<open>a % n\<close> on integer-valued numbers with \<open>n > 0\<close>: the result has the sign of the
  dividend. For \<open>n = 0\<close> JavaScript yields not-a-number and the array read that follows is
  \<open>undefined\<close>, which \<open>array_get\<close> on the empty array gives as well.\<close>

definition js_rem :: "int \<Rightarrow> int \<Rightarrow> int" where
  "js_rem a n = (if 0 \<le> a then a mod n else - ((- a) mod n))"

text \<open>\<open>_getImage\<close> stores the chosen frame in \<open>_lastImage\<close> and returns it; the model returns
  the sprite with \<open>lastImage\<close> updated. With a zero \<open>distancePerFrame\<close> the quotient is
  infinite or not-a-number, and so is the index: the array read is \<open>undefined\<close>.\<close>

definition getImage :: "'a animating_sprite_scheme \<Rightarrow> 'a animating_sprite_scheme" where
  "getImage s =
     (let currentImageArray =
            (if vec_x (velocity s) < 0 then Some (imageLeftArray s)
             else if vec_x (velocity s) > 0 then Some (imageRightArray s)
             else if vec_y (velocity s) < 0 then Some (imageUpArray s)
             else if vec_y (velocity s) > 0 then Some (imageDownArray s)
             else None)
      in case currentImageArray of
           None \<Rightarrow> s
         | Some arr \<Rightarrow>
             (if distancePerFrame s = 0 then s\<lparr>lastImage := None\<rparr>
              else
                (let frameCount = \<lfloor>elapsedTime s * vmag (velocity s) / distancePerFrame s\<rfloor>
                 in s\<lparr>lastImage := array_get arr (js_rem frameCount (int (length arr)))\<rparr>)))"

definition AnimatingSprite_new ::
  "img list \<Rightarrow> img list \<Rightarrow> img list \<Rightarrow> img list \<Rightarrow> vector \<Rightarrow> vector \<Rightarrow> vector \<Rightarrow> real
     \<Rightarrow> animating_sprite" where
  "AnimatingSprite_new l r u d sz pos vel dpf =
     \<lparr>sprite_image = array_get d 0, sprite_size = sz, position = pos, velocity = vel,
      imageLeftArray = l, imageRightArray = r, imageUpArray = u, imageDownArray = d,
      distancePerFrame = dpf, elapsedTime = 0, lastImage = array_get d 0\<rparr>"

definition AnimatingSprite_tick ::
  "real \<Rightarrow> 'a animating_sprite_scheme \<Rightarrow> 'a animating_sprite_scheme" where
  "AnimatingSprite_tick dt s =
     (let s1 = s\<lparr>elapsedTime := elapsedTime s + dt\<rparr>;
          s2 = getImage s1;
          s3 = s2\<lparr>sprite_image := lastImage s2\<rparr>
      in Sprite_tick dt s3)"

section \<open>The host's random numbers\<close>

text \<open>
  p5's \<open>random\<close> belongs to the host. The model takes its results as given: \<open>scalars\<close> are
  the numbers returned by the successive calls \<open>random(min, max)\<close>, \<open>choices\<close> the elements
  returned by the successive calls \<open>random([left, right, up, down])\<close>, and the two counters
  say how many of each have been drawn. Nothing is assumed about the values.
\<close>

datatype cardinal = LEFT | RIGHT | UP | DOWN

record random_source =
  scalars :: "nat \<Rightarrow> real"
  choices :: "nat \<Rightarrow> cardinal"
  scalarsDrawn :: nat
  choicesDrawn :: nat

definition random_scalar :: "random_source \<Rightarrow> real \<times> random_source" where
  "random_scalar r = (scalars r (scalarsDrawn r), r\<lparr>scalarsDrawn := Suc (scalarsDrawn r)\<rparr>)"

definition random_choice :: "random_source \<Rightarrow> cardinal \<times> random_source" where
  "random_choice r = (choices r (choicesDrawn r), r\<lparr>choicesDrawn := Suc (choicesDrawn r)\<rparr>)"

text \<open>The source after one more scalar was drawn.\<close>

definition drawScalar :: "random_source \<Rightarrow> random_source" where
  "drawScalar r = r\<lparr>scalarsDrawn := Suc (scalarsDrawn r)\<rparr>"

fun cardinal_vector :: "cardinal \<Rightarrow> vector" where
  "cardinal_vector LEFT = VECTOR_LEFT"
| "cardinal_vector RIGHT = VECTOR_RIGHT"
| "cardinal_vector UP = VECTOR_UP"
| "cardinal_vector DOWN = VECTOR_DOWN"

section \<open>Cow\<close>

record cow = animating_sprite +
  targetPosition :: "vector option"

definition Cow_imageLeftArray :: "img list" where
  "Cow_imageLeftArray =
     [''cow_left_0.png'', ''cow_left_1.png'', ''cow_left_2.png'', ''cow_left_3.png'']"
definition Cow_imageRightArray :: "img list" where
  "Cow_imageRightArray =
     [''cow_right_0.png'', ''cow_right_1.png'', ''cow_right_2.png'', ''cow_right_3.png'']"
definition Cow_imageUpArray :: "img list" where
  "Cow_imageUpArray =
     [''cow_up_0.png'', ''cow_up_1.png'', ''cow_up_2.png'', ''cow_up_3.png'']"
definition Cow_imageDownArray :: "img list" where
  "Cow_imageDownArray =
     [''cow_down_0.png'', ''cow_down_1.png'', ''cow_down_2.png'', ''cow_down_3.png'']"
definition Cow_size :: vector where "Cow_size = vmult VECTOR_ONE 128"
definition Cow_distanceFromFrame :: real where "Cow_distanceFromFrame = 2.5"
definition Cow_targetPadding :: real where "Cow_targetPadding = 40"
definition Cow_normalSpeed :: real where "Cow_normalSpeed = 20"
definition Cow_targetSpeed :: real where "Cow_targetSpeed = 40"

text \<open>The constructor does not set \<open>_targetPosition\<close>: it is \<open>undefined\<close>, which is falsy
  like the \<open>null\<close> that \<open>unsetTargetPosition\<close> stores. Both are \<open>None\<close>.\<close>

definition Cow_new :: "vector \<Rightarrow> cow" where
  "Cow_new pos =
     \<lparr>sprite_image = array_get Cow_imageDownArray 0, sprite_size = Cow_size,
      position = pos, velocity = VECTOR_ZERO,
      imageLeftArray = Cow_imageLeftArray, imageRightArray = Cow_imageRightArray,
      imageUpArray = Cow_imageUpArray, imageDownArray = Cow_imageDownArray,
      distancePerFrame = Cow_distanceFromFrame, elapsedTime = 0,
      lastImage = array_get Cow_imageDownArray 0,
      targetPosition = None\<rparr>"

definition Cow_tickTarget :: "real \<Rightarrow> vector \<Rightarrow> cow \<Rightarrow> cow" where
  "Cow_tickTarget dt target c =
     (if vec_x (position c) > vec_x target + 40 then
        c\<lparr>velocity := vmult VECTOR_LEFT Cow_targetSpeed\<rparr>
      else if vec_x (position c) < vec_x target - Cow_targetPadding then
        c\<lparr>velocity := vmult VECTOR_RIGHT Cow_targetSpeed\<rparr>
      else if vec_y (position c) > vec_y target + Cow_targetPadding then
        c\<lparr>velocity := vmult VECTOR_UP Cow_targetSpeed\<rparr>
      else if vec_y (position c) < vec_y target - Cow_targetPadding then
        c\<lparr>velocity := vmult VECTOR_DOWN Cow_targetSpeed\<rparr>
      else
        c\<lparr>velocity := VECTOR_ZERO\<rparr>)"

definition Cow_tickNormal :: "real \<Rightarrow> cow \<Rightarrow> random_source \<Rightarrow> cow \<times> random_source" where
  "Cow_tickNormal dt c r =
     (let probability = 0.1 * dt;
          (roll, r1) = random_scalar r
      in if roll < probability then
           (if vmag (velocity c) > 0 then (c\<lparr>velocity := VECTOR_ZERO\<rparr>, r1)
            else
              (let (d, r2) = random_choice r1
               in (c\<lparr>velocity := vmult (cardinal_vector d) Cow_normalSpeed\<rparr>, r2)))
         else (c, r1))"

definition Cow_tick :: "real \<Rightarrow> cow \<Rightarrow> random_source \<Rightarrow> cow \<times> random_source" where
  "Cow_tick dt c r =
     (let (c1, r1) =
            (case targetPosition c of
               Some target \<Rightarrow> (Cow_tickTarget dt target c, r)
             | None \<Rightarrow> Cow_tickNormal dt c r)
      in (AnimatingSprite_tick dt c1, r1))"

definition setTargetPosition :: "vector \<Rightarrow> cow \<Rightarrow> cow" where
  "setTargetPosition p c = c\<lparr>targetPosition := Some p\<rparr>"

definition unsetTargetPosition :: "cow \<Rightarrow> cow" where
  "unsetTargetPosition c = c\<lparr>targetPosition := None\<rparr>"

section \<open>Person\<close>

type_synonym person = animating_sprite

definition Person_imageLeftArray :: "img list" where
  "Person_imageLeftArray = [''person_left_0.png'', ''person_left_1.png'', ''person_left_2.png'']"
definition Person_imageRightArray :: "img list" where
  "Person_imageRightArray =
     [''person_right_0.png'', ''person_right_1.png'', ''person_right_2.png'']"
definition Person_imageUpArray :: "img list" where
  "Person_imageUpArray = [''person_up_0.png'', ''person_up_1.png'', ''person_up_2.png'']"
definition Person_imageDownArray :: "img list" where
  "Person_imageDownArray = [''person_down_0.png'', ''person_down_1.png'', ''person_down_2.png'']"
definition Person_size :: vector where "Person_size = createVector 32 32"
definition Person_distanceFromFrame :: real where "Person_distanceFromFrame = 2.5"
definition Person_speed :: real where "Person_speed = 30"

definition Person_new :: "vector \<Rightarrow> person" where
  "Person_new pos =
     AnimatingSprite_new Person_imageLeftArray Person_imageRightArray Person_imageUpArray
       Person_imageDownArray Person_size pos VECTOR_ZERO Person_distanceFromFrame"

definition setControlledDirection :: "vector \<Rightarrow> person \<Rightarrow> person" where
  "setControlledDirection direction p = p\<lparr>velocity := vmult direction Person_speed\<rparr>"

section \<open>The host\<close>

text \<open>
  What \<open>GameManager\<close> reads from p5 during one call: the reading of \<open>frameRate()\<close>, the
  four \<open>keyIsDown\<close> answers, and the canvas and window extents.
\<close>

record host =
  frameRate :: number
  keyLeft :: bool
  keyRight :: bool
  keyUp :: bool
  keyDown :: bool
  width :: real
  height :: real
  windowHeight :: real

section \<open>GameManager\<close>

definition GameManager_titleImage :: img where "GameManager_titleImage = ''title.png''"
definition GameManager_titlePosition :: "host \<Rightarrow> vector" where
  "GameManager_titlePosition h = createVector 0 (- windowHeight h / 2 + 60)"
definition GameManager_titleSize :: vector where "GameManager_titleSize = createVector 400 60"
definition GameManager_descriptionPosition :: "host \<Rightarrow> vector" where
  "GameManager_descriptionPosition h = createVector (-250) (windowHeight h / 2 - 110)"
definition GameManager_descriptionSize :: vector where
  "GameManager_descriptionSize = createVector 480 80"
definition GameManager_descriptionInitial :: string where
  "GameManager_descriptionInitial =
     ''Grazing time is over! Can you bring the cows back home? '' @
     ''Use the arrow keys to move around and press the space bar near a cow '' @
     ''to start leading it or let it go.''"
definition GameManager_descriptionInitialFontSize :: real where
  "GameManager_descriptionInitialFontSize = 18"
definition GameManager_descriptionSuccess :: string where
  "GameManager_descriptionSuccess = ''Yay, you'' @ [CHR 0x27] @ ''ve brought all the cows home!''"
definition GameManager_descriptionSuccessFontSize :: real where
  "GameManager_descriptionSuccessFontSize = 24"
definition GameManager_edgeWidth :: real where "GameManager_edgeWidth = 80"
definition GameManager_cowRange :: real where "GameManager_cowRange = 50"

record game_manager =
  descriptionText :: string
  descriptionFontSize :: real
  person :: person
  fence :: fence
  cows :: "cow list"
  title :: sprite
  followingCow :: "nat option"
  randomSource :: random_source

text \<open>
  \<open>_followingCow\<close> refers to one of the objects of \<open>_cows\<close>; the model holds its index in
  \<open>cows\<close>. \<open>_allSprites\<close> is the fixed list \<open>[title, fence, person, ...cows]\<close> of the same
  objects: ticking it ticks the title, the fence, the person and then the cows in order.
  The random numbers of the host are threaded through the state in \<open>randomSource\<close>.
\<close>

text \<open>\<open>forEach\<close> over the cows for a body that draws random numbers: left to right.\<close>

fun forEach_random ::
  "('a \<Rightarrow> random_source \<Rightarrow> 'a \<times> random_source) \<Rightarrow> 'a list \<Rightarrow> random_source
     \<Rightarrow> 'a list \<times> random_source" where
  "forEach_random f [] r = ([], r)"
| "forEach_random f (c # cs) r =
     (let (c', r1) = f c r;
          (cs', r2) = forEach_random f cs r1
      in (c' # cs', r2))"

text \<open>The play area in which a cow walks on: the canvas shrunk by the edge width.\<close>

definition gameBounds :: "host \<Rightarrow> vector" where
  "gameBounds h =
     vsub (createVector (width h) (height h)) (vmult VECTOR_ONE GameManager_edgeWidth)"

text \<open>The body of the collision loop of \<open>GameManager.tick\<close>, for one cow.\<close>

definition cowCollisions ::
  "real \<Rightarrow> host \<Rightarrow> fence \<Rightarrow> cow \<Rightarrow> random_source \<Rightarrow> cow \<times> random_source" where
  "cowCollisions dt h f c r =
     (let (c1, r1) =
            (if isOverlapping f (position c) then
               Cow_tick dt (setVelocity (vmult (getVelocity c) (-1)) c) r
             else (c, r))
      in if \<not> positionInBounds (getPosition c1) VECTOR_ZERO (gameBounds h) then
           Cow_tick dt (setVelocity (vmult (getVelocity c1) (-1)) c1) r1
         else (c1, r1))"

text \<open>
  \<open>GameManager.tick\<close> after its guard on \<open>dt\<close>, block by block. First the arrow keys:
  the direction handed to \<open>Person.setControlledDirection\<close>.
\<close>

definition controlledDirection :: "host \<Rightarrow> vector" where
  "controlledDirection h =
     (if keyLeft h then VECTOR_LEFT
      else if keyRight h then VECTOR_RIGHT
      else if keyUp h then VECTOR_UP
      else if keyDown h then VECTOR_DOWN
      else VECTOR_ZERO)"

text \<open>The followed cow, if there is one, gets the person's position as its target.\<close>

definition updateFollowingCow :: "nat option \<Rightarrow> person \<Rightarrow> cow list \<Rightarrow> cow list" where
  "updateFollowingCow following p cs =
     (case following of
        Some i \<Rightarrow> cs[i := setTargetPosition (getPosition p) (cs ! i)]
      | None \<Rightarrow> cs)"

text \<open>The person is rolled back and stopped when it overlaps the fence.\<close>

definition personFenceCollision :: "real \<Rightarrow> fence \<Rightarrow> person \<Rightarrow> person" where
  "personFenceCollision dt f p =
     (if isOverlapping f (getPosition p) then
        setVelocity VECTOR_ZERO
          (setPosition (vsub (getPosition p) (vmult (getVelocity p) dt)) p)
      else p)"

definition cowsOutsideFence :: "fence \<Rightarrow> cow list \<Rightarrow> cow list" where
  "cowsOutsideFence f cs =
     filter (\<lambda>cow. \<not> positionInBounds (getPosition cow) (getPosition f) (getSize f)) cs"

text \<open>The body of \<open>GameManager.tick\<close> for the real number \<open>dt\<close>.\<close>

definition tickBody :: "real \<Rightarrow> host \<Rightarrow> game_manager \<Rightarrow> game_manager" where
  "tickBody dt h g =
     (let person1 = setControlledDirection (controlledDirection h) (person g);
          cows1 = updateFollowingCow (followingCow g) person1 (cows g);
          title2 = Sprite_tick dt (title g);
          fence2 = Sprite_tick dt (fence g);
          person2 = AnimatingSprite_tick dt person1;
          (cows2, r2) = forEach_random (Cow_tick dt) cows1 (randomSource g);
          (cows3, r3) = forEach_random (cowCollisions dt h fence2) cows2 r2;
          person3 = personFenceCollision dt fence2 person2;
          g1 = g\<lparr>person := person3, fence := fence2, cows := cows3, title := title2,
                 randomSource := r3\<rparr>
      in if length (cowsOutsideFence fence2 cows3) = 0 then
           g1\<lparr>descriptionText := GameManager_descriptionSuccess,
              descriptionFontSize := GameManager_descriptionSuccessFontSize\<rparr>
         else g1)"

text \<open>The cows as the move of all sprites in \<open>tickBody\<close> finds them (\<open>cows1\<close> there, the
  followed cow with its new target) and as it leaves them (\<open>cows2\<close> there), with the random
  source after it: the input of the collision loop.\<close>

definition targetedCows :: "host \<Rightarrow> game_manager \<Rightarrow> cow list" where
  "targetedCows h g =
     updateFollowingCow (followingCow g)
       (setControlledDirection (controlledDirection h) (person g)) (cows g)"

definition movedCows :: "real \<Rightarrow> host \<Rightarrow> game_manager \<Rightarrow> cow list \<times> random_source" where
  "movedCows dt h g = forEach_random (Cow_tick dt) (targetedCows h g) (randomSource g)"

text \<open>
  \<open>GameManager.tick\<close> declares no parameter: it computes \<open>dt\<close> from \<open>frameRate()\<close> and an
  argument passed by a caller is dropped. After the guard \<open>dt\<close> is a finite nonzero number.
\<close>

definition GameManager_tick :: "host \<Rightarrow> game_manager \<Rightarrow> game_manager" where
  "GameManager_tick h g =
     (let dt = one_over (frameRate h)
      in if falsy dt \<or> \<not> isFinite dt \<or> isNaN dt then g
         else (case dt of Fin d \<Rightarrow> tickBody d h g | _ \<Rightarrow> g))"

text \<open>The calls that \<open>draw\<close> makes on the rendering host, in order. Drawing reads the state
  and does not change it.\<close>

datatype draw_call =
    Push
  | Background real real real
  | Translate real real
  | TextSize real
  | TextFont string
  | TextAlignCenter
  | Fill real real real real
  | Text string real real real real
  | Image "img option" real real real real
  | Pop

definition Sprite_draw :: "'a sprite_scheme \<Rightarrow> draw_call" where
  "Sprite_draw s =
     Image (sprite_image s)
       (vec_x (position s) - vec_x (sprite_size s) / 2)
       (vec_y (position s) - vec_y (sprite_size s) / 2)
       (vec_x (sprite_size s))
       (vec_y (sprite_size s))"

definition GameManager_draw :: "host \<Rightarrow> game_manager \<Rightarrow> draw_call list" where
  "GameManager_draw h g =
     [Push,
      Background 0 200 0,
      Translate (width h / 2) (height h / 2),
      TextSize (descriptionFontSize g),
      TextFont ''Georgia'',
      TextAlignCenter,
      Fill 255 255 255 220,
      Text (descriptionText g)
        (vec_x (GameManager_descriptionPosition h)) (vec_y (GameManager_descriptionPosition h))
        (vec_x GameManager_descriptionSize) (vec_y GameManager_descriptionSize)]
     @ [Sprite_draw (title g), Sprite_draw (fence g), Sprite_draw (person g)]
     @ map Sprite_draw (cows g)
     @ [Pop]"

definition keyTyped :: "string \<Rightarrow> game_manager \<Rightarrow> game_manager" where
  "keyTyped key g =
     (if key = '' '' then
        (case followingCow g of
           Some i \<Rightarrow>
             g\<lparr>cows := (cows g)[i := unsetTargetPosition (cows g ! i)], followingCow := None\<rparr>
         | None \<Rightarrow>
             (let cowsInRange =
                    filter (\<lambda>i. vdist (getPosition (person g)) (getPosition (cows g ! i))
                                   < GameManager_cowRange)
                      [0 ..< length (cows g)]
              in if length cowsInRange > 0 then g\<lparr>followingCow := Some (cowsInRange ! 0)\<rparr>
                 else g))
      else g)"

text \<open>\<open>Array.from({ length: n }, () => new Cow(...))\<close>: each cow draws its x and then its y
  coordinate from the host.\<close>

fun createCows :: "nat \<Rightarrow> random_source \<Rightarrow> cow list \<times> random_source" where
  "createCows 0 r = ([], r)"
| "createCows (Suc n) r =
     (let (a, r1) = random_scalar r;
          (b, r2) = random_scalar r1;
          (cs, r3) = createCows n r2
      in (Cow_new (createVector a b) # cs, r3))"

text \<open>The state when \<open>setup\<close> has created its objects: the description fields as the
  constructor of \<open>GameManager\<close> set them, \<open>_followingCow\<close> still \<open>undefined\<close>.\<close>

definition createObjects :: "host \<Rightarrow> random_source \<Rightarrow> game_manager" where
  "createObjects h r =
     (let (cs, r1) = createCows 3 r
      in \<lparr>descriptionText = GameManager_descriptionInitial,
          descriptionFontSize = GameManager_descriptionInitialFontSize,
          person = Person_new VECTOR_ZERO,
          fence = Fence_new VECTOR_ZERO,
          cows = cs,
          title = \<lparr>sprite_image = Some GameManager_titleImage,
                    sprite_size = GameManager_titleSize,
                    position = GameManager_titlePosition h,
                    velocity = VECTOR_ZERO\<rparr>,
          followingCow = None,
          randomSource = r1\<rparr>)"

text \<open>
  \<open>setup\<close> ends with the loop \<open>for (i = 0; i < 10; i++) this.tick({ dt: 1.0 / 30 })\<close>.
  No frame is drawn and no event is handled while \<open>setup\<close> runs, so the ten calls read the
  same host; the argument \<open>{ dt: 1.0 / 30 }\<close> does not reach \<open>tick\<close>, which has no
  parameter.
\<close>

definition GameManager_setup :: "host \<Rightarrow> random_source \<Rightarrow> game_manager" where
  "GameManager_setup h r = (GameManager_tick h ^^ 10) (createObjects h r)"

section \<open>Runs of the game\<close>

datatype event = Tick host | Draw host | KeyTyped string

fun apply_event :: "event \<Rightarrow> game_manager \<Rightarrow> game_manager" where
  "apply_event (Tick h) g = GameManager_tick h g"
| "apply_event (Draw h) g = g"
| "apply_event (KeyTyped key) g = keyTyped key g"

definition run :: "event list \<Rightarrow> game_manager \<Rightarrow> game_manager" where
  "run evs g = foldl (\<lambda>s e. apply_event e s) g evs"

inductive reachable :: "game_manager \<Rightarrow> bool" where
  reachable_created: "reachable (createObjects h r)"
| reachable_event: "reachable g \<Longrightarrow> reachable (apply_event e g)"

section \<open>The motion of the sprites in binary64\<close>

text \<open>
  The definitions above compute with exact reals. JavaScript computes with IEEE 754
  binary64 numbers, rounding to nearest with ties to even: each arithmetic operation
  returns the double nearest to the exact result. Where a property is an exact identity of
  arithmetic, the two differ. This section gives, with the rounding written out, the
  functions of the source through which the position and the velocity of a sprite pass
  during \<open>GameManager.tick\<close>. The elapsed time and the image of an \<open>AnimatingSprite\<close> never
  feed into its position or velocity and are left as they are: as far as position and
  velocity go, \<open>AnimatingSprite.tick\<close> is \<open>Sprite.tick\<close>.

  \<open>round_even\<close> rounds a real to the nearest integer, a tie to the even one. \<open>binade x\<close> is
  the exponent \<open>e\<close> with \<open>2 ^ e \<le> |x| < 2 ^ (e + 1)\<close>. \<open>fl x\<close> is the double nearest to \<open>x\<close>:
  a multiple of \<open>2 ^ (e - 52)\<close>, and of \<open>2 ^ -1074\<close> for the subnormal numbers below
  \<open>2 ^ -1022\<close>. Results beyond the largest double (overflow to \<open>Infinity\<close>) are outside this
  function; every number of the game is far from them.
\<close>

definition round_even :: "real \<Rightarrow> int" where
  "round_even y =
     (let n = \<lfloor>y\<rfloor>; d = y - of_int n
      in if d < 1 / 2 then n else if d > 1 / 2 then n + 1 else if even n then n else n + 1)"

definition binade :: "real \<Rightarrow> int" where
  "binade x = \<lfloor>log 2 \<bar>x\<bar>\<rfloor>"

definition fl :: "real \<Rightarrow> real" where
  "fl x =
     (if x = 0 then 0
      else
        (let e = max (binade x) (- 1022)
         in of_int (round_even (x * 2 powi (52 - e))) * 2 powi (e - 52)))"

text \<open>The methods of p5.Vector, one rounding for each operation on each coordinate.\<close>

definition vadd64 :: "vector \<Rightarrow> vector \<Rightarrow> vector" where
  "vadd64 u v = createVector (fl (vec_x u + vec_x v)) (fl (vec_y u + vec_y v))"

definition vsub64 :: "vector \<Rightarrow> vector \<Rightarrow> vector" where
  "vsub64 u v = createVector (fl (vec_x u - vec_x v)) (fl (vec_y u - vec_y v))"

definition vmult64 :: "vector \<Rightarrow> real \<Rightarrow> vector" where
  "vmult64 u k = createVector (fl (vec_x u * k)) (fl (vec_y u * k))"

definition vmag64 :: "vector \<Rightarrow> real" where
  "vmag64 u = fl (sqrt (fl (fl (vec_x u * vec_x u) + fl (vec_y u * vec_y u))))"

text \<open>\<open>dt = 1.0 / frameRate()\<close> for a finite nonzero reading \<open>r\<close>.\<close>

definition dt64 :: "real \<Rightarrow> real" where
  "dt64 r = fl (1 / r)"

definition positionInBounds64 :: "vector \<Rightarrow> vector \<Rightarrow> vector \<Rightarrow> bool" where
  "positionInBounds64 pos boundsPosition boundsSize =
     (vec_x pos > fl (vec_x boundsPosition - fl (vec_x boundsSize / 2)) \<and>
      vec_x pos < fl (vec_x boundsPosition + fl (vec_x boundsSize / 2)) \<and>
      vec_y pos > fl (vec_y boundsPosition - fl (vec_y boundsSize / 2)) \<and>
      vec_y pos < fl (vec_y boundsPosition + fl (vec_y boundsSize / 2)))"

definition Sprite_tick64 :: "real \<Rightarrow> 'a sprite_scheme \<Rightarrow> 'a sprite_scheme" where
  "Sprite_tick64 dt s = s\<lparr>position := vadd64 (position s) (vmult64 (velocity s) dt)\<rparr>"

definition isOverlapping64 :: "fence \<Rightarrow> vector \<Rightarrow> bool" where
  "isOverlapping64 f pos =
     (let outerFenceBoundSize = vadd64 (getSize f) (vmult64 VECTOR_ONE (fl (Fence_edgeWidth / 2)));
          innerFenceBoundSize = vsub64 (getSize f) (vmult64 VECTOR_ONE (fl (Fence_edgeWidth / 2)));
          openingPosition =
            vsub64 (getPosition f) (createVector 0 (fl (vec_y (sprite_size f) / 2)));
          isInOuterFenceBound = positionInBounds64 pos (position f) outerFenceBoundSize;
          isInInnerFenceBound = positionInBounds64 pos (position f) innerFenceBoundSize;
          isInOpening = positionInBounds64 pos openingPosition Fence_openingSize
      in isInOuterFenceBound \<and> \<not> isInInnerFenceBound \<and> \<not> isInOpening)"

definition gameBounds64 :: "host \<Rightarrow> vector" where
  "gameBounds64 h =
     vsub64 (createVector (width h) (height h)) (vmult64 VECTOR_ONE GameManager_edgeWidth)"

definition Cow_tickTarget64 :: "real \<Rightarrow> vector \<Rightarrow> cow \<Rightarrow> cow" where
  "Cow_tickTarget64 dt target c =
     (if vec_x (position c) > fl (vec_x target + 40) then
        c\<lparr>velocity := vmult64 VECTOR_LEFT Cow_targetSpeed\<rparr>
      else if vec_x (position c) < fl (vec_x target - Cow_targetPadding) then
        c\<lparr>velocity := vmult64 VECTOR_RIGHT Cow_targetSpeed\<rparr>
      else if vec_y (position c) > fl (vec_y target + Cow_targetPadding) then
        c\<lparr>velocity := vmult64 VECTOR_UP Cow_targetSpeed\<rparr>
      else if vec_y (position c) < fl (vec_y target - Cow_targetPadding) then
        c\<lparr>velocity := vmult64 VECTOR_DOWN Cow_targetSpeed\<rparr>
      else
        c\<lparr>velocity := VECTOR_ZERO\<rparr>)"

text \<open>The literal \<open>0.1\<close> of the source is the double nearest to one tenth.\<close>

definition Cow_tickNormal64 :: "real \<Rightarrow> cow \<Rightarrow> random_source \<Rightarrow> cow \<times> random_source" where
  "Cow_tickNormal64 dt c r =
     (let probability = fl (fl 0.1 * dt);
          (roll, r1) = random_scalar r
      in if roll < probability then
           (if vmag64 (velocity c) > 0 then (c\<lparr>velocity := VECTOR_ZERO\<rparr>, r1)
            else
              (let (d, r2) = random_choice r1
               in (c\<lparr>velocity := vmult64 (cardinal_vector d) Cow_normalSpeed\<rparr>, r2)))
         else (c, r1))"

definition Cow_tick64 :: "real \<Rightarrow> cow \<Rightarrow> random_source \<Rightarrow> cow \<times> random_source" where
  "Cow_tick64 dt c r =
     (let (c1, r1) =
            (case targetPosition c of
               Some target \<Rightarrow> (Cow_tickTarget64 dt target c, r)
             | None \<Rightarrow> Cow_tickNormal64 dt c r)
      in (Sprite_tick64 dt c1, r1))"

definition cowCollisions64 ::
  "real \<Rightarrow> host \<Rightarrow> fence \<Rightarrow> cow \<Rightarrow> random_source \<Rightarrow> cow \<times> random_source" where
  "cowCollisions64 dt h f c r =
     (let (c1, r1) =
            (if isOverlapping64 f (position c) then
               Cow_tick64 dt (setVelocity (vmult64 (getVelocity c) (-1)) c) r
             else (c, r))
      in if \<not> positionInBounds64 (getPosition c1) VECTOR_ZERO (gameBounds64 h) then
           Cow_tick64 dt (setVelocity (vmult64 (getVelocity c1) (-1)) c1) r1
         else (c1, r1))"

definition setControlledDirection64 :: "vector \<Rightarrow> person \<Rightarrow> person" where
  "setControlledDirection64 direction p = p\<lparr>velocity := vmult64 direction Person_speed\<rparr>"

definition personFenceCollision64 :: "real \<Rightarrow> fence \<Rightarrow> person \<Rightarrow> person" where
  "personFenceCollision64 dt f p =
     (if isOverlapping64 f (getPosition p) then
        setVelocity VECTOR_ZERO
          (setPosition (vsub64 (getPosition p) (vmult64 (getVelocity p) dt)) p)
      else p)"

text \<open>The person through one \<open>GameManager.tick\<close> with the time step \<open>dt\<close>: the controlled
  direction, the move, and the collision with the fence as the tick of this frame has left
  it.\<close>

definition personInTick64 :: "real \<Rightarrow> host \<Rightarrow> fence \<Rightarrow> person \<Rightarrow> person" where
  "personInTick64 dt h f p =
     personFenceCollision64 dt (Sprite_tick64 dt f)
       (Sprite_tick64 dt (setControlledDirection64 (controlledDirection h) p))"

section \<open>The properties, as the specification words them\<close>

text \<open>What the specification calls the opening: no overlap is reported inside it. And the
  ring as the claim words it, with the inner bound excluded up to and including its edge.\<close>

definition claimed_overlap :: "fence \<Rightarrow> vector \<Rightarrow> bool" where
  "claimed_overlap f p =
     (strictly_inside_rect p (position f) (outer_bound_size f) \<and>
      strictly_outside_rect p (position f) (inner_bound_size f) \<and>
      \<not> strictly_inside_rect p (opening_centre f) Fence_openingSize)"

text \<open>The response to a collision of a cow: its velocity is negated and its own tick is
  run once more with the same \<open>dt\<close>.\<close>

definition negateAndRetick :: "real \<Rightarrow> cow \<Rightarrow> random_source \<Rightarrow> cow \<times> random_source" where
  "negateAndRetick dt c r = Cow_tick dt (c\<lparr>velocity := vmult (velocity c) (- 1)\<rparr>) r"

text \<open>At most one component of a velocity is nonzero.\<close>

definition axis_aligned :: "vector \<Rightarrow> bool" where
  "axis_aligned v = (vec_x v = 0 \<or> vec_y v = 0)"

definition cowsAxisAligned :: "game_manager \<Rightarrow> bool" where
  "cowsAxisAligned g = list_all (\<lambda>c. axis_aligned (velocity c)) (cows g)"

text \<open>Every cow is strictly inside the inner bound of the fence: the rectangle of the
  fence's size less half the edge width, which is the interior of the wall.\<close>

definition allCowsInsideInnerBound :: "game_manager \<Rightarrow> bool" where
  "allCowsInsideInnerBound g =
     list_all (\<lambda>c. strictly_inside_rect (position c) (position (fence g))
                      (inner_bound_size (fence g)))
       (cows g)"

text \<open>Every cow is strictly inside the footprint of the fence: the rectangle of the fence's
  own size at the fence's position, which reaches to the middle of the wall.\<close>

definition allCowsInsideFence :: "game_manager \<Rightarrow> bool" where
  "allCowsInsideFence g =
     list_all (\<lambda>c. strictly_inside_rect (position c) (position (fence g)) (sprite_size (fence g)))
       (cows g)"

text \<open>A cow in NORMAL mode that stands still, and random numbers none of which makes a
  cow in NORMAL mode toggle its behaviour at the time step \<open>dt\<close>.\<close>

definition atRest :: "cow \<Rightarrow> bool" where
  "atRest c = (targetPosition c = None \<and> velocity c = VECTOR_ZERO)"

definition neverToggles :: "real \<Rightarrow> random_source \<Rightarrow> bool" where
  "neverToggles dt r = (\<forall>n. \<not> scalars r n < 0.1 * dt)"

definition inSuccessState :: "game_manager \<Rightarrow> bool" where
  "inSuccessState g =
     (descriptionText g = GameManager_descriptionSuccess \<and>
      descriptionFontSize g = GameManager_descriptionSuccessFontSize)"

section \<open>Concrete hosts, random numbers and states\<close>

text \<open>A host in steady state at 30 frames per second with no key held, and a host whose
  \<open>frameRate()\<close> reads 0: one of the readings before the first frame that the guard of
  \<open>tick\<close> is there for.\<close>

definition host30 :: host where
  "host30 = \<lparr>frameRate = Fin 30, keyLeft = False, keyRight = False, keyUp = False,
             keyDown = False, width = 1000, height = 800, windowHeight = 800\<rparr>"

definition hostBeforeFirstFrame :: host where
  "hostBeforeFirstFrame = host30\<lparr>frameRate := Fin 0\<rparr>"

text \<open>Random numbers that are all \<open>k\<close>: with \<open>k = 1\<close> no roll of a cow toggles its
  behaviour and every cow is created at \<open>(1, 1)\<close>; with \<open>k = 0\<close> every roll toggles for a
  positive \<open>dt\<close>; with \<open>k = 300\<close> every cow is created at \<open>(300, 300)\<close>, outside the fence;
  with \<open>k = 180\<close> every cow is created at \<open>(180, 180)\<close>, in the wall of the fence.\<close>

definition constantRandom :: "real \<Rightarrow> random_source" where
  "constantRandom k =
     \<lparr>scalars = (\<lambda>n. k), choices = (\<lambda>n. LEFT), scalarsDrawn = 0, choicesDrawn = 0\<rparr>"

definition followingCowExample :: cow where
  "followingCowExample = setTargetPosition (createVector 0 0) (Cow_new (createVector 100 0))"

text \<open>A cow in NORMAL mode inside the enclosure, just east of the interior edge of the
  west wall, walking left at normal speed.\<close>

definition leftWalker :: cow where
  "leftWalker =
     (Cow_new (createVector (- 174.5) 0))\<lparr>velocity := vmult VECTOR_LEFT Cow_normalSpeed\<rparr>"

text \<open>The game with that cow as the first of its three cows, the other two at rest at
  \<open>(1, 1)\<close>, and random numbers that never toggle.\<close>

definition walkerGame :: game_manager where
  "walkerGame =
     (createObjects host30 (constantRandom 1))
       \<lparr>cows := [leftWalker, Cow_new (createVector 1 1), Cow_new (createVector 1 1)]\<rparr>"

text \<open>A canvas so small that the west wall of the fence is outside the play area.\<close>

definition hostSmallCanvas :: host where
  "hostSmallCanvas = host30\<lparr>width := 400, height := 400\<rparr>"

text \<open>The right arrow key is held.\<close>

definition hostRightKey :: host where
  "hostRightKey = host30\<lparr>keyRight := True\<rparr>"

text \<open>The person stands inside the enclosure, just west of the interior edge of the east
  wall.\<close>

definition personAtWall :: game_manager where
  "personAtWall =
     (createObjects host30 (constantRandom 1))\<lparr>person := Person_new (createVector 174.5 0)\<rparr>"

text \<open>The game was won and the cows are at \<open>(300, 300)\<close>, outside the fence.\<close>

definition wonWithCowsOutside :: game_manager where
  "wonWithCowsOutside =
     (createObjects host30 (constantRandom 300))
       \<lparr>descriptionText := GameManager_descriptionSuccess,
        descriptionFontSize := GameManager_descriptionSuccessFontSize\<rparr>"

text \<open>For the binary64 replays: a canvas 1104 wide, whose play area ends at \<open>x = \<plusminus> 512\<close>; a
  cow in NORMAL mode just inside its west edge, walking left at normal speed, with the x
  coordinate that the literal \<open>-511.9\<close> denotes; and the person just west of the interior
  edge of the east wall, with the x coordinate that the literal \<open>174.33\<close> denotes.\<close>

definition hostWideCanvas :: host where
  "hostWideCanvas = host30\<lparr>width := 1104\<rparr>"

definition leftWalker64 :: cow where
  "leftWalker64 =
     (Cow_new (createVector (fl (- 511.9)) 0))\<lparr>velocity := vmult64 VECTOR_LEFT Cow_normalSpeed\<rparr>"

definition personAtWall64 :: person where
  "personAtWall64 = Person_new (createVector (fl 174.33) 0)"

section \<open>Helper facts about the model\<close>

subsection \<open>Vectors and rectangles\<close>

lemma positionInBounds_iff_strictly_inside:
  "positionInBounds p c s = strictly_inside_rect p c s"
  unfolding positionInBounds_def strictly_inside_rect_def by (simp only: abs_less_iff) argo

text \<open>In exact arithmetic a step and its opposite cancel. These two identities are what
  rounding breaks.\<close>

lemma vsub_vadd_cancel: "vsub (vadd p q) q = p"
  by (simp add: vsub_def vadd_def createVector_def)

lemma vadd_negate_cancel: "vadd (vadd p (vmult v k)) (vmult (vmult v (- 1)) k) = p"
  by (simp add: vadd_def vmult_def createVector_def)

lemma vmult_negate_twice: "vmult (vmult v (- 1)) (- 1) = v"
  by (simp add: vmult_def createVector_def)

lemma isOverlapping_eval:
  "isOverlapping f p \<longleftrightarrow>
     positionInBounds p (position f)
       (createVector (vec_x (sprite_size f) + 50) (vec_y (sprite_size f) + 50)) \<and>
     \<not> positionInBounds p (position f)
       (createVector (vec_x (sprite_size f) - 50) (vec_y (sprite_size f) - 50)) \<and>
     \<not> positionInBounds p
       (createVector (vec_x (position f)) (vec_y (position f) - vec_y (sprite_size f) / 2))
       (createVector 100 100)"
  by (simp add: isOverlapping_def Let_def getSize_def getPosition_def vadd_def vsub_def vmult_def
      VECTOR_ONE_def createVector_def Fence_edgeWidth_def Fence_openingSize_def)

subsection \<open>One sprite\<close>

lemma AnimatingSprite_tick_position:
  "position (AnimatingSprite_tick dt s) = vadd (position s) (vmult (velocity s) dt)"
  by (simp add: AnimatingSprite_tick_def Sprite_tick_def getImage_def Let_def split: option.splits)

lemma AnimatingSprite_tick_velocity:
  "velocity (AnimatingSprite_tick dt s) = velocity s"
  by (simp add: AnimatingSprite_tick_def Sprite_tick_def getImage_def Let_def split: option.splits)

lemma AnimatingSprite_tick_targetPosition:
  "targetPosition (AnimatingSprite_tick dt c) = targetPosition c"
  by (simp add: AnimatingSprite_tick_def Sprite_tick_def getImage_def Let_def split: option.splits)

lemma AnimatingSprite_tick_elapsedTime:
  "elapsedTime (AnimatingSprite_tick dt s) = elapsedTime s + dt"
  by (simp add: AnimatingSprite_tick_def Sprite_tick_def getImage_def Let_def split: option.splits)

lemma Cow_tickNormal_fields:
  "position (fst (Cow_tickNormal dt c r)) = position c"
  "targetPosition (fst (Cow_tickNormal dt c r)) = targetPosition c"
  by (simp_all add: Cow_tickNormal_def Let_def split_def)

lemma Cow_tickTarget_fields:
  "position (Cow_tickTarget dt t c) = position c"
  "targetPosition (Cow_tickTarget dt t c) = targetPosition c"
  by (simp_all add: Cow_tickTarget_def)

text \<open>Whatever the mode, the tick of a cow moves it by its new velocity times \<open>dt\<close>.\<close>

lemma Cow_tick_step:
  "position (fst (Cow_tick dt c r)) =
     vadd (position c) (vmult (velocity (fst (Cow_tick dt c r))) dt)"
  by (simp add: Cow_tick_def Let_def split_def AnimatingSprite_tick_position
      AnimatingSprite_tick_velocity Cow_tickNormal_fields Cow_tickTarget_fields
      split: option.splits)

lemma Cow_tick_targetPosition:
  "targetPosition (fst (Cow_tick dt c r)) = targetPosition c"
  by (simp add: Cow_tick_def Let_def split_def AnimatingSprite_tick_targetPosition
      Cow_tickNormal_fields Cow_tickTarget_fields split: option.splits)

text \<open>In NORMAL mode a roll that is not below \<open>0.1 * dt\<close> leaves the behaviour as it is.\<close>

lemma Cow_tick_normal_quiet:
  "targetPosition c = None \<Longrightarrow> \<not> scalars r (scalarsDrawn r) < 0.1 * dt \<Longrightarrow>
   Cow_tick dt c r = (AnimatingSprite_tick dt c, drawScalar r)"
  by (simp add: Cow_tick_def Cow_tickNormal_def random_scalar_def Let_def drawScalar_def)

lemma negateAndRetick_quiet:
  assumes "targetPosition c = None" and "\<not> scalars r (scalarsDrawn r) < 0.1 * dt"
  shows "negateAndRetick dt c r =
           (AnimatingSprite_tick dt (c\<lparr>velocity := vmult (velocity c) (- 1)\<rparr>), drawScalar r)"
  using assms by (simp add: negateAndRetick_def Cow_tick_normal_quiet)

lemma cowCollisions_responses:
  "cowCollisions dt h f c r =
     (let (c1, r1) = (if isOverlapping f (position c) then negateAndRetick dt c r else (c, r))
      in if positionInBounds (position c1) VECTOR_ZERO (gameBounds h) then (c1, r1)
         else negateAndRetick dt c1 r1)"
  by (simp add: cowCollisions_def negateAndRetick_def setVelocity_def getVelocity_def
      getPosition_def Let_def split_def)

lemma cowCollisions_none:
  "\<not> isOverlapping f (position c) \<Longrightarrow>
   positionInBounds (position c) VECTOR_ZERO (gameBounds h) \<Longrightarrow>
   cowCollisions dt h f c r = (c, r)"
  by (simp add: cowCollisions_def getPosition_def)

subsection \<open>The tick of the game\<close>

lemma valid_dt_tick:
  "one_over (frameRate h) = Fin d \<Longrightarrow> d \<noteq> 0 \<Longrightarrow> GameManager_tick h g = tickBody d h g"
  by (simp add: GameManager_tick_def)

lemma tickBody_fence: "fence (tickBody d h g) = Sprite_tick d (fence g)"
  by (simp add: tickBody_def Let_def split_def)

lemma tickBody_person:
  "person (tickBody d h g) =
     personFenceCollision d (Sprite_tick d (fence g))
       (AnimatingSprite_tick d (setControlledDirection (controlledDirection h) (person g)))"
  by (simp add: tickBody_def Let_def split_def)

lemma tickBody_cows:
  "cows (tickBody d h g) =
     fst (forEach_random (cowCollisions d h (Sprite_tick d (fence g)))
            (fst (forEach_random (Cow_tick d)
                    (updateFollowingCow (followingCow g)
                       (setControlledDirection (controlledDirection h) (person g)) (cows g))
                    (randomSource g)))
            (snd (forEach_random (Cow_tick d)
                    (updateFollowingCow (followingCow g)
                       (setControlledDirection (controlledDirection h) (person g)) (cows g))
                    (randomSource g))))"
  by (simp add: tickBody_def Let_def split_def)

lemma tickBody_description:
  "descriptionText (tickBody d h g) =
     (if cowsOutsideFence (fence (tickBody d h g)) (cows (tickBody d h g)) = []
      then GameManager_descriptionSuccess else descriptionText g)"
  "descriptionFontSize (tickBody d h g) =
     (if cowsOutsideFence (fence (tickBody d h g)) (cows (tickBody d h g)) = []
      then GameManager_descriptionSuccessFontSize else descriptionFontSize g)"
  by (simp_all add: tickBody_def Let_def split_def)

lemma cowsOutsideFence_empty_iff:
  "cowsOutsideFence f cs = [] \<longleftrightarrow>
     list_all (\<lambda>c. positionInBounds (position c) (position f) (sprite_size f)) cs"
  by (simp add: cowsOutsideFence_def filter_empty_conv list_all_iff getPosition_def getSize_def)

lemma allCowsInsideFence_iff:
  "allCowsInsideFence g \<longleftrightarrow> cowsOutsideFence (fence g) (cows g) = []"
  by (simp add: allCowsInsideFence_def cowsOutsideFence_empty_iff
      positionInBounds_iff_strictly_inside)

lemma tickBody_person_elapsedTime:
  "elapsedTime (person (tickBody d h g)) = elapsedTime (person g) + d"
  by (simp add: tickBody_person personFenceCollision_def setVelocity_def setPosition_def
      AnimatingSprite_tick_elapsedTime setControlledDirection_def)

lemma keyTyped_description:
  "descriptionText (keyTyped k g) = descriptionText g"
  "descriptionFontSize (keyTyped k g) = descriptionFontSize g"
  by (simp_all add: keyTyped_def Let_def split: option.splits)

subsection \<open>Loops over the cows\<close>

lemma forEach_random_list_all:
  assumes "\<And>c r. P c \<Longrightarrow> P (fst (f c r))"
  shows "list_all P cs \<Longrightarrow> list_all P (fst (forEach_random f cs r))"
proof (induction cs arbitrary: r)
  case Nil
  then show ?case by simp
next
  case (Cons c cs)
  then show ?case by (simp add: split_def Let_def assms)
qed

lemma forEach_random_length: "length (fst (forEach_random f cs r)) = length cs"
  by (induction cs arbitrary: r) (simp_all add: split_def Let_def)

text \<open>The loop hands to the body, for the cow at index \<open>i\<close>, the random source that the
  cows before it have left.\<close>

lemma forEach_random_nth:
  "i < length cs \<Longrightarrow>
   fst (forEach_random f cs r) ! i = fst (f (cs ! i) (snd (forEach_random f (take i cs) r)))"
proof (induction cs arbitrary: r i)
  case Nil
  then show ?case by simp
next
  case (Cons c cs)
  show ?case
  proof (cases i)
    case 0
    then show ?thesis by (simp add: split_def Let_def)
  next
    case (Suc j)
    with Cons.prems have "j < length cs" by simp
    then have "fst (forEach_random f cs (snd (f c r))) ! j =
        fst (f (cs ! j) (snd (forEach_random f (take j cs) (snd (f c r)))))"
      by (rule Cons.IH)
    with Suc show ?thesis by (simp add: split_def Let_def)
  qed
qed

lemma updateFollowingCow_length: "length (updateFollowingCow fc p cs) = length cs"
  by (cases fc) (simp_all add: updateFollowingCow_def)

lemma movedCows_length: "length (fst (movedCows dt h g)) = length (cows g)"
  by (simp add: movedCows_def targetedCows_def forEach_random_length updateFollowingCow_length)

lemma movedCows_nth:
  "i < length (cows g) \<Longrightarrow>
   fst (movedCows dt h g) ! i =
     fst (Cow_tick dt (targetedCows h g ! i)
            (snd (forEach_random (Cow_tick dt) (take i (targetedCows h g)) (randomSource g))))"
  by (simp add: movedCows_def forEach_random_nth targetedCows_def updateFollowingCow_length)

lemma tickBody_cows_nth:
  assumes "i < length (cows g)"
  shows "cows (tickBody dt h g) ! i =
     fst (cowCollisions dt h (fence (tickBody dt h g)) (fst (movedCows dt h g) ! i)
            (snd (forEach_random (cowCollisions dt h (fence (tickBody dt h g)))
                    (take i (fst (movedCows dt h g))) (snd (movedCows dt h g)))))"
proof -
  have "cows (tickBody dt h g) =
          fst (forEach_random (cowCollisions dt h (fence (tickBody dt h g)))
                 (fst (movedCows dt h g)) (snd (movedCows dt h g)))"
    by (simp add: tickBody_cows tickBody_fence movedCows_def targetedCows_def)
  with assms show ?thesis
    by (simp add: forEach_random_nth movedCows_length)
qed

lemma list_all_update:
  "list_all P xs \<Longrightarrow> (i < length xs \<Longrightarrow> P y) \<Longrightarrow> list_all P (xs[i := y])"
  by (induction xs arbitrary: i) (auto split: nat.splits)

text \<open>When no roll toggles, the move of the cows in NORMAL mode is their plain advance.\<close>

lemma forEach_Cow_tick_quiet:
  assumes "\<forall>n. \<not> scalars r n < 0.1 * dt"
  shows "list_all (\<lambda>c. targetPosition c = None) cs \<Longrightarrow>
         fst (forEach_random (Cow_tick dt) cs r) = map (AnimatingSprite_tick dt) cs \<and>
         scalars (snd (forEach_random (Cow_tick dt) cs r)) = scalars r"
  using assms
proof (induction cs arbitrary: r)
  case Nil
  then show ?case by simp
next
  case (Cons c cs)
  have s: "\<forall>n. \<not> scalars (drawScalar r) n < 0.1 * dt"
    using Cons.prems by (simp add: drawScalar_def)
  have "Cow_tick dt c r = (AnimatingSprite_tick dt c, drawScalar r)"
    using Cons.prems by (simp add: Cow_tick_normal_quiet)
  moreover have
    "fst (forEach_random (Cow_tick dt) cs (drawScalar r)) = map (AnimatingSprite_tick dt) cs \<and>
     scalars (snd (forEach_random (Cow_tick dt) cs (drawScalar r))) = scalars (drawScalar r)"
    using Cons.prems s by (intro Cons.IH) simp_all
  ultimately show ?case
    by (simp add: split_def drawScalar_def)
qed

lemma forEach_cowCollisions_none:
  "list_all (\<lambda>c. \<not> isOverlapping f (position c) \<and>
                  positionInBounds (position c) VECTOR_ZERO (gameBounds h)) cs \<Longrightarrow>
   forEach_random (cowCollisions dt h f) cs r = (cs, r)"
  by (induction cs arbitrary: r) (simp_all add: cowCollisions_none)

text \<open>A tick in which nothing happens to the cows but their advance.\<close>

lemma quiet_tick_cows:
  assumes "followingCow g = None"
    and "list_all (\<lambda>c. targetPosition c = None) (cows g)"
    and "\<forall>n. \<not> scalars (randomSource g) n < 0.1 * d"
    and "list_all (\<lambda>c. \<not> isOverlapping (Sprite_tick d (fence g)) (position c) \<and>
                  positionInBounds (position c) VECTOR_ZERO (gameBounds h))
           (map (AnimatingSprite_tick d) (cows g))"
  shows "cows (tickBody d h g) = map (AnimatingSprite_tick d) (cows g)"
  using assms forEach_Cow_tick_quiet [of "randomSource g" d "cows g"]
  by (simp add: tickBody_cows updateFollowingCow_def forEach_cowCollisions_none)

subsection \<open>Cows at rest\<close>

lemma neverToggles_drawScalar: "neverToggles dt r \<Longrightarrow> neverToggles dt (drawScalar r)"
  by (simp add: neverToggles_def drawScalar_def)

lemma AnimatingSprite_tick_atRest:
  "atRest c \<Longrightarrow>
   position (AnimatingSprite_tick dt c) = position c \<and> atRest (AnimatingSprite_tick dt c)"
  by (simp add: atRest_def AnimatingSprite_tick_position AnimatingSprite_tick_velocity
      AnimatingSprite_tick_targetPosition vadd_def vmult_def VECTOR_ZERO_def createVector_def)

lemma Cow_tick_atRest:
  assumes "atRest c" and "neverToggles dt r"
  shows "position (fst (Cow_tick dt c r)) = position c \<and> atRest (fst (Cow_tick dt c r)) \<and>
         neverToggles dt (snd (Cow_tick dt c r))"
proof -
  have "Cow_tick dt c r = (AnimatingSprite_tick dt c, drawScalar r)"
    using assms by (intro Cow_tick_normal_quiet) (simp_all add: atRest_def neverToggles_def)
  with assms show ?thesis
    by (simp add: AnimatingSprite_tick_atRest neverToggles_drawScalar)
qed

lemma negateAndRetick_atRest:
  assumes "atRest c" and "neverToggles dt r"
  shows "position (fst (negateAndRetick dt c r)) = position c \<and>
         atRest (fst (negateAndRetick dt c r)) \<and> neverToggles dt (snd (negateAndRetick dt c r))"
proof -
  have "c\<lparr>velocity := vmult (velocity c) (- 1)\<rparr> = c"
    using assms(1) by (simp add: atRest_def vmult_def VECTOR_ZERO_def createVector_def)
  then show ?thesis
    using assms by (simp add: negateAndRetick_def Cow_tick_atRest)
qed

lemma cowCollisions_atRest:
  assumes "atRest c" and "neverToggles dt r"
  shows "position (fst (cowCollisions dt h f c r)) = position c \<and>
         atRest (fst (cowCollisions dt h f c r)) \<and>
         neverToggles dt (snd (cowCollisions dt h f c r))"
proof -
  let ?p = "if isOverlapping f (position c) then negateAndRetick dt c r else (c, r)"
  have 1: "position (fst ?p) = position c \<and> atRest (fst ?p) \<and> neverToggles dt (snd ?p)"
    using assms by (simp add: negateAndRetick_atRest)
  then have 2: "position (fst (negateAndRetick dt (fst ?p) (snd ?p))) = position c \<and>
      atRest (fst (negateAndRetick dt (fst ?p) (snd ?p))) \<and>
      neverToggles dt (snd (negateAndRetick dt (fst ?p) (snd ?p)))"
    using negateAndRetick_atRest [of "fst ?p" dt "snd ?p"] by simp
  have "cowCollisions dt h f c r =
          (if positionInBounds (position (fst ?p)) VECTOR_ZERO (gameBounds h) then ?p
           else negateAndRetick dt (fst ?p) (snd ?p))"
    by (simp add: cowCollisions_responses split_def Let_def)
  with 1 2 show ?thesis
    by (cases "positionInBounds (position (fst ?p)) VECTOR_ZERO (gameBounds h)") simp_all
qed

lemma forEach_random_atRest:
  assumes step: "\<And>c r. atRest c \<Longrightarrow> neverToggles dt r \<Longrightarrow>
      position (fst (f c r)) = position c \<and> atRest (fst (f c r)) \<and> neverToggles dt (snd (f c r))"
  shows "list_all atRest cs \<Longrightarrow> neverToggles dt r \<Longrightarrow>
         map position (fst (forEach_random f cs r)) = map position cs \<and>
         list_all atRest (fst (forEach_random f cs r)) \<and>
         neverToggles dt (snd (forEach_random f cs r))"
proof (induction cs arbitrary: r)
  case Nil
  then show ?case by simp
next
  case (Cons c cs)
  from Cons.prems have s: "position (fst (f c r)) = position c \<and> atRest (fst (f c r)) \<and>
      neverToggles dt (snd (f c r))"
    by (intro step) simp_all
  moreover from Cons.prems s
  have "map position (fst (forEach_random f cs (snd (f c r)))) = map position cs \<and>
         list_all atRest (fst (forEach_random f cs (snd (f c r)))) \<and>
         neverToggles dt (snd (forEach_random f cs (snd (f c r))))"
    by (intro Cons.IH) simp_all
  ultimately show ?case
    by (simp add: split_def Let_def)
qed

text \<open>Cows at rest that no roll sets in motion stay where they are through a tick, whether
  they collide or not.\<close>

lemma tickBody_cows_atRest:
  assumes "followingCow g = None" and "list_all atRest (cows g)"
    and "neverToggles d (randomSource g)"
  shows "map position (cows (tickBody d h g)) = map position (cows g)"
proof -
  let ?m = "forEach_random (Cow_tick d) (cows g) (randomSource g)"
  have m: "map position (fst ?m) = map position (cows g) \<and> list_all atRest (fst ?m) \<and>
           neverToggles d (snd ?m)"
    using assms(2,3) by (intro forEach_random_atRest Cow_tick_atRest)
  then have "map position
               (fst (forEach_random (cowCollisions d h (Sprite_tick d (fence g))) (fst ?m) (snd ?m)))
             = map position (fst ?m)"
    using forEach_random_atRest [of d "cowCollisions d h (Sprite_tick d (fence g))" "fst ?m" "snd ?m"]
      cowCollisions_atRest by simp
  with m assms(1) show ?thesis
    by (simp add: tickBody_cows updateFollowingCow_def)
qed

subsection \<open>The created objects and the concrete states\<close>

lemma createCows_scalars: "scalars (snd (createCows n r)) = scalars r"
  by (induction n arbitrary: r) (simp_all add: split_def Let_def random_scalar_def)

lemma createCows_constant:
  "\<forall>m. scalars r m = k \<Longrightarrow> fst (createCows n r) = replicate n (Cow_new (createVector k k))"
  by (induction n arbitrary: r) (simp_all add: split_def Let_def random_scalar_def)

lemma createObjects_fields:
  "fence (createObjects h r) = Fence_new VECTOR_ZERO"
  "followingCow (createObjects h r) = None"
  "scalars (randomSource (createObjects h r)) = scalars r"
  "descriptionText (createObjects h r) = GameManager_descriptionInitial"
  "descriptionFontSize (createObjects h r) = GameManager_descriptionInitialFontSize"
  "person (createObjects h r) = Person_new VECTOR_ZERO"
  by (simp_all add: createObjects_def split_def Let_def createCows_scalars)

lemma createObjects_constant_cows:
  "cows (createObjects h (constantRandom k)) =
     [Cow_new (createVector k k), Cow_new (createVector k k), Cow_new (createVector k k)]"
proof -
  have "fst (createCows 3 (constantRandom k)) = replicate 3 (Cow_new (createVector k k))"
    by (rule createCows_constant) (simp add: constantRandom_def)
  then show ?thesis
    by (simp add: createObjects_def split_def Let_def numeral_3_eq_3)
qed

lemma Cow_new_fields:
  "position (Cow_new p) = p"
  "velocity (Cow_new p) = VECTOR_ZERO"
  "targetPosition (Cow_new p) = None"
  by (simp_all add: Cow_new_def)

lemma Person_new_fields:
  "position (Person_new p) = p"
  "velocity (Person_new p) = VECTOR_ZERO"
  "elapsedTime (Person_new p) = 0"
  by (simp_all add: Person_new_def AnimatingSprite_new_def)

lemma moved_new_cow: "position (AnimatingSprite_tick d (Cow_new p)) = p"
  by (simp add: AnimatingSprite_tick_position Cow_new_fields vadd_def vmult_def VECTOR_ZERO_def
      createVector_def)

lemma ticked_new_fence:
  "position (Sprite_tick d (Fence_new VECTOR_ZERO)) = createVector 0 0"
  "sprite_size (Sprite_tick d (Fence_new VECTOR_ZERO)) = createVector 400 400"
  by (simp_all add: Sprite_tick_def Fence_new_def Fence_size_def vadd_def vmult_def
      VECTOR_ZERO_def VECTOR_ONE_def createVector_def)

lemma new_fence_fields:
  "position (Fence_new VECTOR_ZERO) = createVector 0 0"
  "sprite_size (Fence_new VECTOR_ZERO) = createVector 400 400"
  by (simp_all add: Fence_new_def Fence_size_def vmult_def VECTOR_ZERO_def VECTOR_ONE_def
      createVector_def)

lemma gameBounds_host30: "gameBounds host30 = createVector 920 720"
  by (simp add: gameBounds_def host30_def vsub_def vmult_def VECTOR_ONE_def createVector_def
      GameManager_edgeWidth_def)

lemma gameBounds_hostSmallCanvas: "gameBounds hostSmallCanvas = createVector 320 320"
  by (simp add: gameBounds_def hostSmallCanvas_def host30_def vsub_def vmult_def VECTOR_ONE_def
      createVector_def GameManager_edgeWidth_def)

lemma one_over_host30: "one_over (frameRate host30) = Fin (1 / 30)"
  by (simp add: host30_def)

text \<open>The first tick at 30 frames per second after the cows were created at \<open>(1, 1)\<close> or at
  \<open>(300, 300)\<close>, with rolls that never toggle: the cows stay where they are.\<close>

lemma quiet_first_tick:
  assumes "k = 1 \<or> k = 300"
  shows "cows (tickBody (1 / 30) host30 (createObjects host30 (constantRandom k))) =
     map (AnimatingSprite_tick (1 / 30)) (cows (createObjects host30 (constantRandom k)))"
proof (rule quiet_tick_cows)
  show "\<forall>n. \<not> scalars (randomSource (createObjects host30 (constantRandom k))) n
               < 0.1 * (1 / 30)"
    using assms by (auto simp add: createObjects_fields constantRandom_def)
  show "list_all
     (\<lambda>c. \<not> isOverlapping (Sprite_tick (1 / 30) (fence (createObjects host30 (constantRandom k))))
                (position c) \<and>
           positionInBounds (position c) VECTOR_ZERO (gameBounds host30))
     (map (AnimatingSprite_tick (1 / 30)) (cows (createObjects host30 (constantRandom k))))"
    unfolding createObjects_fields createObjects_constant_cows list.map list.pred_inject
      moved_new_cow isOverlapping_eval ticked_new_fence gameBounds_host30
    using assms by (auto simp add: positionInBounds_def VECTOR_ZERO_def createVector_def)
qed (simp_all add: createObjects_fields createObjects_constant_cows Cow_new_fields)

lemma first_tick_allCowsInsideFence:
  assumes "k = 1 \<or> k = 300"
  shows "allCowsInsideFence (tickBody (1 / 30) host30 (createObjects host30 (constantRandom k)))
           \<longleftrightarrow> k = 1"
  unfolding allCowsInsideFence_def tickBody_fence quiet_first_tick [OF assms]
    createObjects_fields createObjects_constant_cows list.map list.pred_inject
    moved_new_cow ticked_new_fence
  using assms by (auto simp add: strictly_inside_rect_def createVector_def)

subsection \<open>Rounding to binary64\<close>

lemma binade_eqI:
  assumes "2 powi k \<le> \<bar>x\<bar>" and "\<bar>x\<bar> < 2 powi (k + 1)"
  shows "binade x = k"
proof -
  have "0 < (2::real) powi k"
    by simp
  with assms(1) have p: "0 < \<bar>x\<bar>"
    by linarith
  have "(2::real) powr real_of_int k = 2 powi k"
    by (rule powr_real_of_int') simp_all
  moreover have "(2::real) powr real_of_int (k + 1) = 2 powi (k + 1)"
    by (rule powr_real_of_int') simp_all
  ultimately have "(2::real) powr real_of_int k \<le> \<bar>x\<bar> \<and> \<bar>x\<bar> < 2 powr real_of_int (k + 1)"
    using assms by simp
  then have "\<lfloor>log 2 \<bar>x\<bar>\<rfloor> = k"
    using p floor_log_eq_powr_iff [of "\<bar>x\<bar>" 2 k] by simp
  then show ?thesis
    by (simp add: binade_def)
qed

text \<open>The double nearest to a number of a known binade, at or above the smallest normal
  number.\<close>

lemma fl_eval:
  assumes "2 powi k \<le> \<bar>x\<bar>" and "\<bar>x\<bar> < 2 powi (k + 1)" and "- 1022 \<le> k"
  shows "fl x = of_int (round_even (x * 2 powi (52 - k))) * 2 powi (k - 52)"
proof -
  have "binade x = k" using assms(1,2) by (rule binade_eqI)
  moreover have "x \<noteq> 0"
  proof -
    have "0 < (2::real) powi k" by simp
    with assms(1) have "0 < \<bar>x\<bar>" by linarith
    then show ?thesis by simp
  qed
  ultimately show ?thesis using assms(3) by (simp add: fl_def Let_def max_def)
qed

lemma round_even_of_int: "round_even (of_int m) = m"
  by (simp add: round_even_def)

text \<open>Integers below \<open>2 ^ 53\<close> are doubles.\<close>

lemma fl_of_int:
  assumes "\<bar>n\<bar> < 2 ^ 53"
  shows "fl (of_int n) = of_int n"
proof (cases "n = 0")
  case True
  then show ?thesis by (simp add: fl_def)
next
  case False
  define k where "k = binade (of_int n)"
  have a: "1 \<le> \<bar>real_of_int n\<bar>"
    using False by (simp flip: of_int_abs)
  have "real_of_int \<bar>n\<bar> < real_of_int (2 ^ 53)"
    using assms by (simp only: of_int_less_iff)
  then have "\<bar>real_of_int n\<bar> < 2 ^ 53"
    by simp
  then have "log 2 \<bar>real_of_int n\<bar> < log 2 (2 ^ 53)"
    using a by (subst log_less_cancel_iff) simp_all
  moreover have "log 2 ((2::real) ^ 53) = real 53"
    by (rule log_pow_cancel) simp_all
  ultimately have b: "log 2 \<bar>real_of_int n\<bar> < 53"
    by (simp only: of_nat_numeral)
  have c: "0 \<le> log 2 \<bar>real_of_int n\<bar>"
    using a by (simp add: zero_le_log_cancel_iff)
  have k: "0 \<le> k" "k \<le> 52"
    using b c unfolding k_def binade_def by (simp_all add: floor_le_iff le_floor_iff floor_less_iff)
  define m where "m = nat (52 - k)"
  have e1: "(2::real) powi (52 - k) = 2 ^ m"
    using k by (simp add: m_def power_int_def)
  have e2: "(2::real) powi (k - 52) = inverse (2 ^ m)"
    using k by (cases "k = 52") (simp_all add: m_def power_int_def power_one_over inverse_eq_divide)
  have "real_of_int n * 2 ^ m = of_int (n * 2 ^ m)"
    by simp
  then have "round_even (real_of_int n * 2 ^ m) = n * 2 ^ m"
    by (simp only: round_even_of_int)
  then show ?thesis
    using False k by (simp add: fl_def Let_def k_def [symmetric] max_def e1 e2)
qed

lemma fl_numeral: "numeral w < (2::int) ^ 53 \<Longrightarrow> fl (numeral w) = numeral w"
  using fl_of_int [of "numeral w"] by simp

lemma fl_neg_numeral: "numeral w < (2::int) ^ 53 \<Longrightarrow> fl (- numeral w) = - numeral w"
  using fl_of_int [of "- numeral w"] by simp

lemma fl_0: "fl 0 = 0"
  by (simp add: fl_def)

lemma fl_1: "fl 1 = 1"
  using fl_of_int [of 1] by simp

lemmas fl_integers = fl_numeral fl_neg_numeral fl_0 fl_1

text \<open>The binades of the numbers in the two replays below.\<close>

lemmas fl_binades =
  fl_eval [where k = "- 9"] fl_eval [where k = "- 5"] fl_eval [where k = "- 4"]
  fl_eval [where k = "- 1"] fl_eval [where k = 0] fl_eval [where k = 7] fl_eval [where k = 8]
  fl_eval [where k = 9]

subsection \<open>The game's fence and the two replays in binary64\<close>

lemma new_fence64:
  "isOverlapping64 (Fence_new VECTOR_ZERO) p \<longleftrightarrow>
     (- 225 < vec_x p \<and> vec_x p < 225 \<and> - 225 < vec_y p \<and> vec_y p < 225) \<and>
     \<not> (- 175 < vec_x p \<and> vec_x p < 175 \<and> - 175 < vec_y p \<and> vec_y p < 175) \<and>
     \<not> (- 50 < vec_x p \<and> vec_x p < 50 \<and> - 250 < vec_y p \<and> vec_y p < - 150)"
  by (simp add: isOverlapping64_def Let_def positionInBounds64_def getSize_def getPosition_def
      Fence_new_def Fence_size_def Fence_edgeWidth_def Fence_openingSize_def vadd64_def
      vsub64_def vmult64_def vmult_def VECTOR_ONE_def VECTOR_ZERO_def createVector_def
      fl_integers)

lemma Sprite_tick64_new_fence: "Sprite_tick64 dt (Fence_new VECTOR_ZERO) = Fence_new VECTOR_ZERO"
  by (simp add: Sprite_tick64_def Fence_new_def vadd64_def vmult64_def VECTOR_ZERO_def
      createVector_def fl_integers)

lemma gameBounds64_hostWideCanvas: "gameBounds64 hostWideCanvas = createVector 1024 720"
  by (simp add: gameBounds64_def hostWideCanvas_def host30_def vsub64_def vmult64_def
      VECTOR_ONE_def createVector_def GameManager_edgeWidth_def fl_integers)

lemma dt64_30: "dt64 30 = 4803839602528529 / 2 ^ 57"
  by (simp add: dt64_def fl_binades round_even_def power_int_minus)

lemma prob30: "fl (fl 0.1 * dt64 30) = 7686143364045647 / 2 ^ 61"
  by (simp add: dt64_30 fl_binades round_even_def power_int_minus)

lemma leftWalker64_fields:
  "targetPosition leftWalker64 = None"
  "velocity leftWalker64 = createVector (- 20) 0"
  "position leftWalker64 = createVector (- (4502720018068275 / 2 ^ 43)) 0"
  by (simp_all add: leftWalker64_def Cow_new_def vmult64_def VECTOR_LEFT_def Cow_normalSpeed_def
      createVector_def fl_integers fl_binades round_even_def power_int_minus)

lemma leftWalker64_move:
  "Cow_tick64 (dt64 30) leftWalker64 (constantRandom 1) =
     (leftWalker64\<lparr>position := createVector (- (563573010010385 / 2 ^ 40)) 0\<rparr>,
      drawScalar (constantRandom 1))"
proof -
  have "Cow_tickNormal64 (dt64 30) leftWalker64 (constantRandom 1) =
          (leftWalker64, drawScalar (constantRandom 1))"
    by (simp add: Cow_tickNormal64_def prob30 random_scalar_def drawScalar_def constantRandom_def)
  moreover have "Sprite_tick64 (dt64 30) leftWalker64 =
                   leftWalker64\<lparr>position := createVector (- (563573010010385 / 2 ^ 40)) 0\<rparr>"
    by (simp add: Sprite_tick64_def leftWalker64_fields vadd64_def vmult64_def dt64_30
        createVector_def fl_integers fl_binades round_even_def power_int_minus)
  ultimately show ?thesis
    by (simp add: Cow_tick64_def leftWalker64_fields)
qed

lemma leftWalker64_retick:
  "Cow_tick64 (dt64 30)
     (leftWalker64\<lparr>position := createVector (- (563573010010385 / 2 ^ 40)) 0,
                   velocity := createVector 20 0\<rparr>)
     (drawScalar (constantRandom 1)) =
   (leftWalker64\<lparr>position := createVector (- (9005440036136549 / 2 ^ 44)) 0,
                 velocity := createVector 20 0\<rparr>,
    drawScalar (drawScalar (constantRandom 1)))"
proof -
  let ?c = "leftWalker64\<lparr>position := createVector (- (563573010010385 / 2 ^ 40)) 0,
                         velocity := createVector 20 0\<rparr>"
  have "Cow_tickNormal64 (dt64 30) ?c (drawScalar (constantRandom 1)) =
          (?c, drawScalar (drawScalar (constantRandom 1)))"
    by (simp add: Cow_tickNormal64_def prob30 random_scalar_def drawScalar_def constantRandom_def)
  moreover have "Sprite_tick64 (dt64 30) ?c =
      leftWalker64\<lparr>position := createVector (- (9005440036136549 / 2 ^ 44)) 0,
                    velocity := createVector 20 0\<rparr>"
    by (simp add: Sprite_tick64_def vadd64_def vmult64_def dt64_30
        createVector_def fl_integers fl_binades round_even_def power_int_minus)
  ultimately show ?thesis
    by (simp add: Cow_tick64_def leftWalker64_fields)
qed

lemma dt64_2825: "dt64 28.25 = 637677823344495 / 2 ^ 54"
  by (simp add: dt64_def fl_binades round_even_def power_int_minus)

lemma dt64_2825_normal: "dt64 (113 / 4) = 637677823344495 / 2 ^ 54"
  using dt64_2825 by simp

lemma hostRightKey_reads:
  "one_over (frameRate hostRightKey) = Fin (1 / 30)"
  "controlledDirection hostRightKey = VECTOR_RIGHT"
  by (simp_all add: hostRightKey_def host30_def controlledDirection_def)

lemma personAtWall64_fields:
  "position personAtWall64 = createVector (6133691586246083 / 2 ^ 45) 0"
  "velocity personAtWall64 = VECTOR_ZERO"
  by (simp_all add: personAtWall64_def Person_new_fields createVector_def fl_binades
      round_even_def power_int_minus)

lemma personAtWall64_moved:
  "Sprite_tick64 (dt64 28.25)
     (setControlledDirection64 (controlledDirection hostRightKey) personAtWall64)
   = personAtWall64\<lparr>velocity := createVector 30 0,
                     position := createVector (3085527760603837 / 2 ^ 44) 0\<rparr>"
  by (simp add: Sprite_tick64_def setControlledDirection64_def hostRightKey_reads
      personAtWall64_fields VECTOR_RIGHT_def Person_speed_def vadd64_def vmult64_def
      dt64_2825_normal createVector_def fl_integers fl_binades round_even_def power_int_minus)

lemma personAtWall64_rollback:
  "vsub64 (createVector (3085527760603837 / 2 ^ 44) 0) (vmult64 (createVector 30 0) (dt64 28.25))
     = createVector (3066845793123041 / 2 ^ 44) 0"
  by (simp add: vsub64_def vmult64_def dt64_2825_normal createVector_def fl_integers fl_binades
      round_even_def power_int_minus)

text \<open>What the amended claims say of the rollback of the person and of the re-tick of a
  cow also holds with the rounding of the code.\<close>

lemma personInTick64_response:
  "(let v = vmult64 (controlledDirection h) Person_speed;
        moved = vadd64 (position p) (vmult64 v dt)
    in (isOverlapping64 (Sprite_tick64 dt f) moved \<longrightarrow>
          position (personInTick64 dt h f p) = vsub64 moved (vmult64 v dt) \<and>
          velocity (personInTick64 dt h f p) = VECTOR_ZERO) \<and>
       (\<not> isOverlapping64 (Sprite_tick64 dt f) moved \<longrightarrow>
          position (personInTick64 dt h f p) = moved \<and>
          velocity (personInTick64 dt h f p) = v))"
  by (simp add: Let_def personInTick64_def personFenceCollision64_def Sprite_tick64_def
      setControlledDirection64_def getPosition_def getVelocity_def setPosition_def
      setVelocity_def)

lemma Cow_retick64_normal:
  assumes "targetPosition c = None" and "\<not> scalars r (scalarsDrawn r) < fl (fl 0.1 * dt)"
  shows "Cow_tick64 dt (setVelocity (vmult64 (getVelocity c) (- 1)) c) r =
           (c\<lparr>velocity := vmult64 (velocity c) (- 1),
              position := vadd64 (position c) (vmult64 (vmult64 (velocity c) (- 1)) dt)\<rparr>,
            drawScalar r)"
  using assms
  by (simp add: Cow_tick64_def Cow_tickNormal64_def Sprite_tick64_def random_scalar_def
      drawScalar_def setVelocity_def getVelocity_def Let_def)

section \<open>MathHelper.positionInBounds\<close>

text \<open>
  Claim C9. \<open>MathHelper.positionInBounds(position, boundsPosition, boundsSize)\<close> is true
  exactly when the position is strictly inside the axis-aligned rectangle centred at
  \<open>boundsPosition\<close> with full extents \<open>boundsSize\<close>, and it is false for every position
  that has a coordinate equal to a boundary edge \<open>boundsPosition \<plusminus> boundsSize / 2\<close>.
\<close>

theorem positionInBounds_strict:
  "(positionInBounds p c s \<longleftrightarrow> strictly_inside_rect p c s) \<and>
   (on_boundary_edge p c s \<longrightarrow> \<not> positionInBounds p c s)"
  unfolding positionInBounds_def strictly_inside_rect_def on_boundary_edge_def
  by (simp only: abs_less_iff) argo

theorem positionInBounds_strict_witness:
  "on_boundary_edge (createVector 5 0) (createVector 0 0) (createVector 10 10) \<and>
   \<not> positionInBounds (createVector 5 0) (createVector 0 0) (createVector 10 10) \<and>
   positionInBounds (createVector 4 0) (createVector 0 0) (createVector 10 10) \<and>
   strictly_inside_rect (createVector 4 0) (createVector 0 0) (createVector 10 10)"
  using positionInBounds_strict [of "createVector 5 0" "createVector 0 0" "createVector 10 10"]
    positionInBounds_strict [of "createVector 4 0" "createVector 0 0" "createVector 10 10"]
  by (simp add: on_boundary_edge_def strictly_inside_rect_def createVector_def)

section \<open>Fence.isOverlapping\<close>

text \<open>
  Claim C4, as stated, at the fence of the game and the point \<open>(175, 0)\<close> on the edge of
  the inner bound: \<open>isOverlapping\<close> is true there, and the point is not strictly outside
  the inner bound.
\<close>

theorem isOverlapping_inner_edge_counterexample:
  "isOverlapping (Fence_new VECTOR_ZERO) (createVector 175 0) \<and>
   \<not> claimed_overlap (Fence_new VECTOR_ZERO) (createVector 175 0)"
  by (simp add: isOverlapping_eval new_fence_fields claimed_overlap_def positionInBounds_def
      strictly_inside_rect_def strictly_outside_rect_def outer_bound_size_def
      inner_bound_size_def opening_centre_def Fence_edgeWidth_def Fence_openingSize_def
      createVector_def)

text \<open>
  Claim C4, amended. \<open>Fence.isOverlapping(p)\<close> is true exactly when \<open>p\<close> is strictly inside
  the outer bound (the fence's size plus half the edge width, centred at the fence's
  position), not strictly inside the inner bound (the fence's size minus half the edge
  width, same centre; a point on the edge of the inner bound counts as overlapping), and
  not strictly inside the opening rectangle centred half the fence's height above the
  fence's position. For every position strictly inside the opening it is false.
\<close>

theorem isOverlapping_ring:
  "(isOverlapping f p \<longleftrightarrow>
      strictly_inside_rect p (position f) (outer_bound_size f) \<and>
      \<not> strictly_inside_rect p (position f) (inner_bound_size f) \<and>
      \<not> strictly_inside_rect p (opening_centre f) Fence_openingSize) \<and>
   (strictly_inside_rect p (opening_centre f) Fence_openingSize \<longrightarrow> \<not> isOverlapping f p)"
proof -
  have "vadd (getSize f) (vmult VECTOR_ONE (Fence_edgeWidth / 2)) = outer_bound_size f"
    by (simp add: vadd_def vmult_def VECTOR_ONE_def createVector_def outer_bound_size_def
        getSize_def)
  moreover have "vsub (getSize f) (vmult VECTOR_ONE (Fence_edgeWidth / 2)) = inner_bound_size f"
    by (simp add: vsub_def vmult_def VECTOR_ONE_def createVector_def inner_bound_size_def
        getSize_def)
  moreover have "vsub (getPosition f) (createVector 0 (vec_y (sprite_size f) / 2))
                   = opening_centre f"
    by (simp add: vsub_def createVector_def opening_centre_def getPosition_def)
  ultimately show ?thesis
    by (simp add: isOverlapping_def Let_def positionInBounds_iff_strictly_inside)
qed

theorem isOverlapping_ring_witness:
  "strictly_inside_rect (createVector 0 (- 200)) (opening_centre (Fence_new VECTOR_ZERO))
     Fence_openingSize \<and>
   \<not> isOverlapping (Fence_new VECTOR_ZERO) (createVector 0 (- 200)) \<and>
   isOverlapping (Fence_new VECTOR_ZERO) (createVector 200 0) \<and>
   isOverlapping (Fence_new VECTOR_ZERO) (createVector 175 0)"
  using isOverlapping_ring [of "Fence_new VECTOR_ZERO" "createVector 0 (- 200)"]
    isOverlapping_ring [of "Fence_new VECTOR_ZERO" "createVector 200 0"]
    isOverlapping_ring [of "Fence_new VECTOR_ZERO" "createVector 175 0"]
  by (simp add: strictly_inside_rect_def outer_bound_size_def inner_bound_size_def
      opening_centre_def new_fence_fields Fence_edgeWidth_def Fence_openingSize_def
      createVector_def)

section \<open>The guard of GameManager.tick\<close>

text \<open>
  Claim C1. When the \<open>dt\<close> that \<open>GameManager.tick\<close> computes is zero, infinite or
  not-a-number, the call returns the state it was given: every sprite (position, velocity,
  size, elapsed time, image), the followed cow and the description text and font size are
  as before, and no random number was drawn.
\<close>

theorem tick_skips_invalid_dt:
  assumes "dt = one_over (frameRate h)"
    and "dt = Fin 0 \<or> dt = PosInf \<or> dt = NegInf \<or> dt = NaN"
  shows "GameManager_tick h g = g"
  using assms by (auto simp: GameManager_tick_def Let_def)

theorem tick_skips_invalid_dt_witness:
  "one_over (frameRate hostBeforeFirstFrame) = PosInf \<and>
   GameManager_tick hostBeforeFirstFrame personAtWall = personAtWall \<and>
   one_over (frameRate (hostRightKey\<lparr>frameRate := PosInf\<rparr>)) = Fin 0 \<and>
   GameManager_tick (hostRightKey\<lparr>frameRate := PosInf\<rparr>) personAtWall = personAtWall \<and>
   one_over (frameRate (hostRightKey\<lparr>frameRate := NaN\<rparr>)) = NaN \<and>
   GameManager_tick (hostRightKey\<lparr>frameRate := NaN\<rparr>) personAtWall = personAtWall"
  using tick_skips_invalid_dt [of PosInf hostBeforeFirstFrame personAtWall]
    tick_skips_invalid_dt [of "Fin 0" "hostRightKey\<lparr>frameRate := PosInf\<rparr>" personAtWall]
    tick_skips_invalid_dt [of NaN "hostRightKey\<lparr>frameRate := NaN\<rparr>" personAtWall]
  by (simp add: hostBeforeFirstFrame_def host30_def)

section \<open>Cow in FOLLOWING mode\<close>

text \<open>
  Claim C5. A tick of a cow that has a target position sets its velocity from its position
  at the start of the tick, by comparing with the target on the x axis first and then on
  the y axis with a padding of 40: 40 to the left, to the right, up or down along one
  axis, or zero within the padding on both axes. The resulting velocity never has both
  components nonzero.
\<close>

theorem following_velocity_single_axis:
  assumes "targetPosition c = Some t"
  shows "velocity (fst (Cow_tick dt c r)) =
           (if vec_x (position c) > vec_x t + 40 then createVector (- 40) 0
            else if vec_x (position c) < vec_x t - 40 then createVector 40 0
            else if vec_y (position c) > vec_y t + 40 then createVector 0 (- 40)
            else if vec_y (position c) < vec_y t - 40 then createVector 0 40
            else createVector 0 0) \<and>
         axis_aligned (velocity (fst (Cow_tick dt c r)))"
  using assms
  by (simp add: Cow_tick_def Cow_tickTarget_def AnimatingSprite_tick_velocity axis_aligned_def
      Cow_targetPadding_def Cow_targetSpeed_def vmult_def createVector_def
      VECTOR_LEFT_def VECTOR_RIGHT_def VECTOR_UP_def VECTOR_DOWN_def VECTOR_ZERO_def)

theorem following_velocity_single_axis_witness:
  "targetPosition followingCowExample = Some (createVector 0 0) \<and>
   velocity (fst (Cow_tick (1 / 30) followingCowExample (constantRandom 1)))
     = createVector (- 40) 0 \<and>
   axis_aligned (velocity (fst (Cow_tick (1 / 30) followingCowExample (constantRandom 1))))"
proof -
  have t: "targetPosition followingCowExample = Some (createVector 0 0)"
    by (simp add: followingCowExample_def setTargetPosition_def)
  have p: "position followingCowExample = createVector 100 0"
    by (simp add: followingCowExample_def setTargetPosition_def Cow_new_def)
  show ?thesis
    using following_velocity_single_axis [OF t, of "1 / 30" "constantRandom 1"] t
    by (simp add: p createVector_def axis_aligned_def)
qed

section \<open>Cow velocities are axis-aligned\<close>

lemma axis_aligned_cardinal: "axis_aligned (vmult (cardinal_vector d) k)"
  by (cases d) (simp_all add: axis_aligned_def vmult_def createVector_def VECTOR_LEFT_def
      VECTOR_RIGHT_def VECTOR_UP_def VECTOR_DOWN_def)

lemma axis_aligned_zero: "axis_aligned VECTOR_ZERO"
  by (simp add: axis_aligned_def VECTOR_ZERO_def createVector_def)

lemma axis_aligned_negate: "axis_aligned v \<Longrightarrow> axis_aligned (vmult v (- 1))"
  by (auto simp add: axis_aligned_def vmult_def createVector_def)

lemma Cow_tickTarget_axis: "axis_aligned (velocity (Cow_tickTarget dt t c))"
  by (simp add: Cow_tickTarget_def axis_aligned_def vmult_def createVector_def
      VECTOR_LEFT_def VECTOR_RIGHT_def VECTOR_UP_def VECTOR_DOWN_def VECTOR_ZERO_def)

lemma Cow_tickNormal_axis:
  "axis_aligned (velocity c) \<Longrightarrow> axis_aligned (velocity (fst (Cow_tickNormal dt c r)))"
  by (simp add: Cow_tickNormal_def Let_def split_def axis_aligned_cardinal axis_aligned_zero)

lemma Cow_tick_axis:
  "axis_aligned (velocity c) \<Longrightarrow> axis_aligned (velocity (fst (Cow_tick dt c r)))"
  by (simp add: Cow_tick_def Let_def split_def AnimatingSprite_tick_velocity
      Cow_tickTarget_axis Cow_tickNormal_axis split: option.splits)

lemma cowCollisions_axis:
  "axis_aligned (velocity c) \<Longrightarrow> axis_aligned (velocity (fst (cowCollisions dt h f c r)))"
  by (simp add: cowCollisions_def Let_def split_def Cow_tick_axis axis_aligned_negate
      setVelocity_def getVelocity_def)

lemma updateFollowingCow_axis:
  assumes a: "list_all (\<lambda>c. axis_aligned (velocity c)) cs"
  shows "list_all (\<lambda>c. axis_aligned (velocity c)) (updateFollowingCow fc p cs)"
proof (cases fc)
  case None
  with a show ?thesis by (simp add: updateFollowingCow_def)
next
  case (Some i)
  from a have "i < length cs \<Longrightarrow>
      axis_aligned (velocity (setTargetPosition (getPosition p) (cs ! i)))"
    by (simp add: list_all_length setTargetPosition_def)
  with a Some show ?thesis
    by (simp add: updateFollowingCow_def list_all_update)
qed

lemma unsetTargetPosition_axis:
  assumes "list_all (\<lambda>c. axis_aligned (velocity c)) cs"
  shows "list_all (\<lambda>c. axis_aligned (velocity c)) (cs[i := unsetTargetPosition (cs ! i)])"
proof -
  from assms
  have "i < length cs \<Longrightarrow> axis_aligned (velocity (unsetTargetPosition (cs ! i)))"
    by (simp add: list_all_length unsetTargetPosition_def)
  with assms show ?thesis by (simp add: list_all_update)
qed

lemma tickBody_axis: "cowsAxisAligned g \<Longrightarrow> cowsAxisAligned (tickBody d h g)"
  unfolding cowsAxisAligned_def tickBody_cows
  by (intro forEach_random_list_all updateFollowingCow_axis cowCollisions_axis Cow_tick_axis)

lemma GameManager_tick_axis: "cowsAxisAligned g \<Longrightarrow> cowsAxisAligned (GameManager_tick h g)"
  by (simp add: GameManager_tick_def Let_def tickBody_axis split: number.splits)

lemma keyTyped_axis: "cowsAxisAligned g \<Longrightarrow> cowsAxisAligned (keyTyped k g)"
  by (simp add: keyTyped_def cowsAxisAligned_def Let_def unsetTargetPosition_axis
      split: option.splits)

lemma createCows_axis: "list_all (\<lambda>c. axis_aligned (velocity c)) (fst (createCows n r))"
  by (induction n arbitrary: r) (simp_all add: split_def Let_def Cow_new_def axis_aligned_zero)

lemma createObjects_axis: "cowsAxisAligned (createObjects h r)"
  by (simp add: createObjects_def cowsAxisAligned_def split_def Let_def createCows_axis)

lemma apply_event_axis: "cowsAxisAligned g \<Longrightarrow> cowsAxisAligned (apply_event e g)"
  by (cases e) (simp_all add: GameManager_tick_axis keyTyped_axis)

lemma reachable_tick_funpow: "reachable g \<Longrightarrow> reachable ((GameManager_tick h ^^ n) g)"
proof (induction n)
  case 0
  then show ?case by simp
next
  case (Suc n)
  then have "reachable (apply_event (Tick h) ((GameManager_tick h ^^ n) g))"
    by (intro reachable_event) simp
  then show ?case by simp
qed

lemma reachable_setup: "reachable (GameManager_setup h r)"
  unfolding GameManager_setup_def by (rule reachable_tick_funpow) (rule reachable_created)

lemma reachable_run: "reachable g \<Longrightarrow> reachable (run evs g)"
  unfolding run_def
  by (induction evs arbitrary: g) (simp_all add: reachable_event)

text \<open>
  Claim C10. In every reachable state (the state in which \<open>setup\<close> has created the objects,
  and every state that \<open>tick\<close>, \<open>draw\<close> and \<open>keyTyped\<close> lead to from there, the warm-up ticks
  of \<open>setup\<close> among them), in both behaviour modes, the velocity of every cow has at most
  one nonzero component.
\<close>

theorem cow_velocity_axis_aligned:
  "reachable g \<Longrightarrow> cowsAxisAligned g"
  by (induction rule: reachable.induct) (simp_all add: createObjects_axis apply_event_axis)

theorem cow_velocity_axis_aligned_witness:
  "reachable (run [Tick host30, KeyTyped '' '', Tick hostRightKey, Draw host30]
               (GameManager_setup host30 (constantRandom 0))) \<and>
   cowsAxisAligned (run [Tick host30, KeyTyped '' '', Tick hostRightKey, Draw host30]
                      (GameManager_setup host30 (constantRandom 0)))"
  using cow_velocity_axis_aligned
    [of "run [Tick host30, KeyTyped '' '', Tick hostRightKey, Draw host30]
           (GameManager_setup host30 (constantRandom 0))"]
  by (simp add: reachable_run reachable_setup)

section \<open>Collisions of a cow\<close>

text \<open>
  Claim C6, as stated, in the arithmetic of the code. At 30 frames per second on a canvas
  1104 wide, a cow in NORMAL mode at \<open>x = -511.9\<close> walks left and leaves the play area;
  its velocity is negated and its tick is run once more, with a roll that does not toggle
  its behaviour. The re-tick does not move it back by exactly the step it just took: the
  cow ends at \<open>x = -511.8999999999999\<close>, not where it was before its move.
\<close>

theorem cow_retick_binary64_counterexample:
  "targetPosition leftWalker64 = None \<and>
   velocity leftWalker64 = createVector (- 20) 0 \<and>
   position leftWalker64 = createVector (- (4502720018068275 / 2 ^ 43)) 0 \<and>
   scalars (drawScalar (constantRandom 1)) (scalarsDrawn (drawScalar (constantRandom 1)))
     \<ge> fl (fl 0.1 * dt64 30) \<and>
   position (fst (Cow_tick64 (dt64 30) leftWalker64 (constantRandom 1)))
     = createVector (- (563573010010385 / 2 ^ 40)) 0 \<and>
   position (fst (cowCollisions64 (dt64 30) hostWideCanvas (Fence_new VECTOR_ZERO)
                    (fst (Cow_tick64 (dt64 30) leftWalker64 (constantRandom 1)))
                    (snd (Cow_tick64 (dt64 30) leftWalker64 (constantRandom 1)))))
     = createVector (- (9005440036136549 / 2 ^ 44)) 0 \<and>
   position (fst (cowCollisions64 (dt64 30) hostWideCanvas (Fence_new VECTOR_ZERO)
                    (fst (Cow_tick64 (dt64 30) leftWalker64 (constantRandom 1)))
                    (snd (Cow_tick64 (dt64 30) leftWalker64 (constantRandom 1)))))
     \<noteq> position leftWalker64"
proof -
  let ?c = "leftWalker64\<lparr>position := createVector (- (563573010010385 / 2 ^ 40)) 0\<rparr>"
  have o: "\<not> isOverlapping64 (Fence_new VECTOR_ZERO) (position ?c)"
    by (simp add: new_fence64 createVector_def)
  have b: "\<not> positionInBounds64 (getPosition ?c) VECTOR_ZERO (gameBounds64 hostWideCanvas)"
    by (simp add: gameBounds64_hostWideCanvas positionInBounds64_def getPosition_def
        VECTOR_ZERO_def createVector_def fl_integers)
  have n: "setVelocity (vmult64 (getVelocity ?c) (- 1)) ?c =
             leftWalker64\<lparr>position := createVector (- (563573010010385 / 2 ^ 40)) 0,
                           velocity := createVector 20 0\<rparr>"
    by (simp add: setVelocity_def getVelocity_def leftWalker64_fields vmult64_def
        createVector_def fl_integers)
  have "cowCollisions64 (dt64 30) hostWideCanvas (Fence_new VECTOR_ZERO) ?c
          (drawScalar (constantRandom 1)) =
        (leftWalker64\<lparr>position := createVector (- (9005440036136549 / 2 ^ 44)) 0,
                      velocity := createVector 20 0\<rparr>,
         drawScalar (drawScalar (constantRandom 1)))"
    unfolding cowCollisions64_def using o b n leftWalker64_retick by simp
  then show ?thesis
    using leftWalker64_move
    by (simp add: leftWalker64_fields prob30 drawScalar_def constantRandom_def createVector_def)
qed

text \<open>
  Claim C6, amended. In \<open>GameManager.tick\<close> with a valid \<open>dt\<close>, each cow of the game comes
  out of the collision loop as the response to its state after its own move of this frame,
  with the random source that the cows before it have left. The loop first answers an
  overlap of the cow's position after the move with the fence by negating the cow's
  velocity and running the cow's own tick once more with the same \<open>dt\<close>, and then,
  independently, answers a position outside the play area in the same way; both may fire
  in one frame. The move of a cow steps it by its velocity times \<open>dt\<close>. For a cow in NORMAL
  mode whose re-tick roll does not toggle its behaviour, the re-tick steps it by the
  negated velocity times \<open>dt\<close>, the opposite of the step it just took, and leaves the
  velocity negated; when both responses fire (and the second roll does not toggle
  either), a second such step follows with the velocity negated again. (In exact
  arithmetic the opposite step leads back to the position before the move; in the doubles
  of the code it can miss it by a rounding error, which is why the claim does not say
  so.)
\<close>

theorem cow_collision_response:
  "(one_over (frameRate h) = Fin dt \<and> dt \<noteq> 0 \<and> i < length (cows g) \<longrightarrow>
      cows (GameManager_tick h g) ! i =
        fst (cowCollisions dt h (fence (GameManager_tick h g)) (fst (movedCows dt h g) ! i)
               (snd (forEach_random (cowCollisions dt h (fence (GameManager_tick h g)))
                       (take i (fst (movedCows dt h g))) (snd (movedCows dt h g))))) \<and>
      fst (movedCows dt h g) ! i =
        fst (Cow_tick dt (targetedCows h g ! i)
               (snd (forEach_random (Cow_tick dt) (take i (targetedCows h g))
                       (randomSource g))))) \<and>
   cowCollisions dt h f c r =
     (let (c1, r1) = (if isOverlapping f (position c) then negateAndRetick dt c r else (c, r))
      in if positionInBounds (position c1) VECTOR_ZERO (gameBounds h) then (c1, r1)
         else negateAndRetick dt c1 r1) \<and>
   position (fst (Cow_tick dt c0 r0)) =
     vadd (position c0) (vmult (velocity (fst (Cow_tick dt c0 r0))) dt) \<and>
   (targetPosition c = None \<and> \<not> scalars r (scalarsDrawn r) < 0.1 * dt \<longrightarrow>
      (let reticked = vadd (position c) (vmult (vmult (velocity c) (- 1)) dt)
       in (isOverlapping f (position c) \<and>
           positionInBounds reticked VECTOR_ZERO (gameBounds h) \<longrightarrow>
             position (fst (cowCollisions dt h f c r)) = reticked \<and>
             velocity (fst (cowCollisions dt h f c r)) = vmult (velocity c) (- 1) \<and>
             snd (cowCollisions dt h f c r) = drawScalar r) \<and>
          (\<not> isOverlapping f (position c) \<and>
           \<not> positionInBounds (position c) VECTOR_ZERO (gameBounds h) \<longrightarrow>
             position (fst (cowCollisions dt h f c r)) = reticked \<and>
             velocity (fst (cowCollisions dt h f c r)) = vmult (velocity c) (- 1) \<and>
             snd (cowCollisions dt h f c r) = drawScalar r) \<and>
          (\<not> isOverlapping f (position c) \<and>
           positionInBounds (position c) VECTOR_ZERO (gameBounds h) \<longrightarrow>
             cowCollisions dt h f c r = (c, r)) \<and>
          (isOverlapping f (position c) \<and>
           \<not> positionInBounds reticked VECTOR_ZERO (gameBounds h) \<and>
           \<not> scalars r (Suc (scalarsDrawn r)) < 0.1 * dt \<longrightarrow>
             position (fst (cowCollisions dt h f c r)) =
               vadd reticked (vmult (vmult (vmult (velocity c) (- 1)) (- 1)) dt) \<and>
             velocity (fst (cowCollisions dt h f c r)) = vmult (vmult (velocity c) (- 1)) (- 1) \<and>
             snd (cowCollisions dt h f c r) = drawScalar (drawScalar r))))"
  unfolding Let_def
proof (intro conjI impI; (elim conjE)?)
  assume "one_over (frameRate h) = Fin dt" and "dt \<noteq> 0" and "i < length (cows g)"
  then show "cows (GameManager_tick h g) ! i =
        fst (cowCollisions dt h (fence (GameManager_tick h g)) (fst (movedCows dt h g) ! i)
               (snd (forEach_random (cowCollisions dt h (fence (GameManager_tick h g)))
                       (take i (fst (movedCows dt h g))) (snd (movedCows dt h g)))))"
    by (simp add: valid_dt_tick tickBody_cows_nth)
next
  assume "i < length (cows g)"
  then show "fst (movedCows dt h g) ! i =
        fst (Cow_tick dt (targetedCows h g ! i)
               (snd (forEach_random (Cow_tick dt) (take i (targetedCows h g))
                       (randomSource g))))"
    by (rule movedCows_nth)
next
  show "cowCollisions dt h f c r =
     (case if isOverlapping f (position c) then negateAndRetick dt c r else (c, r) of
        (c1, r1) \<Rightarrow>
          if positionInBounds (position c1) VECTOR_ZERO (gameBounds h) then (c1, r1)
          else negateAndRetick dt c1 r1)"
    using cowCollisions_responses [of dt h f c r] by (simp add: Let_def)
next
  show "position (fst (Cow_tick dt c0 r0)) =
     vadd (position c0) (vmult (velocity (fst (Cow_tick dt c0 r0))) dt)"
    by (rule Cow_tick_step)
next
  assume tc: "targetPosition c = None"
    and quiet: "\<not> scalars r (scalarsDrawn r) < 0.1 * dt"
  let ?reticked = "vadd (position c) (vmult (vmult (velocity c) (- 1)) dt)"
  let ?b = "AnimatingSprite_tick dt (c\<lparr>velocity := vmult (velocity c) (- 1)\<rparr>)"
  have b: "negateAndRetick dt c r = (?b, drawScalar r)"
    using tc quiet by (rule negateAndRetick_quiet)
  have pb: "position ?b = ?reticked"
    by (simp add: AnimatingSprite_tick_position)
  have vb: "velocity ?b = vmult (velocity c) (- 1)"
    by (simp add: AnimatingSprite_tick_velocity)
  have tb: "targetPosition ?b = None"
    using tc by (simp add: AnimatingSprite_tick_targetPosition)
  {
    assume "isOverlapping f (position c)"
      and "positionInBounds ?reticked VECTOR_ZERO (gameBounds h)"
    then have "cowCollisions dt h f c r = (?b, drawScalar r)"
      by (simp add: cowCollisions_responses b pb)
    then show "position (fst (cowCollisions dt h f c r)) = ?reticked"
      and "velocity (fst (cowCollisions dt h f c r)) = vmult (velocity c) (- 1)"
      and "snd (cowCollisions dt h f c r) = drawScalar r"
      by (simp_all add: pb vb)
  }
  {
    assume "\<not> isOverlapping f (position c)"
      and "\<not> positionInBounds (position c) VECTOR_ZERO (gameBounds h)"
    then have "cowCollisions dt h f c r = (?b, drawScalar r)"
      by (simp add: cowCollisions_responses b)
    then show "position (fst (cowCollisions dt h f c r)) = ?reticked"
      and "velocity (fst (cowCollisions dt h f c r)) = vmult (velocity c) (- 1)"
      and "snd (cowCollisions dt h f c r) = drawScalar r"
      by (simp_all add: pb vb)
  }
  {
    assume "\<not> isOverlapping f (position c)"
      and "positionInBounds (position c) VECTOR_ZERO (gameBounds h)"
    then show "cowCollisions dt h f c r = (c, r)"
      by (rule cowCollisions_none)
  }
  {
    assume o: "isOverlapping f (position c)"
      and nb: "\<not> positionInBounds ?reticked VECTOR_ZERO (gameBounds h)"
      and q2: "\<not> scalars r (Suc (scalarsDrawn r)) < 0.1 * dt"
    let ?bb = "AnimatingSprite_tick dt (?b\<lparr>velocity := vmult (velocity ?b) (- 1)\<rparr>)"
    have "\<not> scalars (drawScalar r) (scalarsDrawn (drawScalar r)) < 0.1 * dt"
      using q2 by (simp add: drawScalar_def)
    with tb have "negateAndRetick dt ?b (drawScalar r) = (?bb, drawScalar (drawScalar r))"
      by (rule negateAndRetick_quiet)
    with o nb have bb: "cowCollisions dt h f c r = (?bb, drawScalar (drawScalar r))"
      by (simp add: cowCollisions_responses b pb)
    have "position ?bb = vadd ?reticked (vmult (vmult (vmult (velocity c) (- 1)) (- 1)) dt)"
      by (simp add: AnimatingSprite_tick_position AnimatingSprite_tick_velocity)
    moreover have "velocity ?bb = vmult (vmult (velocity c) (- 1)) (- 1)"
      by (simp add: AnimatingSprite_tick_velocity)
    ultimately show "position (fst (cowCollisions dt h f c r)) =
        vadd ?reticked (vmult (vmult (vmult (velocity c) (- 1)) (- 1)) dt)"
      and "velocity (fst (cowCollisions dt h f c r)) = vmult (vmult (velocity c) (- 1)) (- 1)"
      and "snd (cowCollisions dt h f c r) = drawScalar (drawScalar r)"
      by (simp_all add: bb)
  }
qed

lemma leftWalker_fields:
  "targetPosition leftWalker = None"
  "position leftWalker = createVector (- 174.5) 0"
  "velocity leftWalker = createVector (- 20) 0"
  by (simp_all add: leftWalker_def Cow_new_def VECTOR_LEFT_def Cow_normalSpeed_def vmult_def
      createVector_def)

lemma leftWalker_move:
  "Cow_tick (1 / 30) leftWalker (constantRandom 1) =
     (AnimatingSprite_tick (1 / 30) leftWalker, drawScalar (constantRandom 1))"
  by (rule Cow_tick_normal_quiet) (simp_all add: leftWalker_fields constantRandom_def)

lemma leftWalker_moved:
  "position (AnimatingSprite_tick (1 / 30) leftWalker) = createVector (- 175 - 1 / 6) 0"
  "velocity (AnimatingSprite_tick (1 / 30) leftWalker) = createVector (- 20) 0"
  by (simp_all add: AnimatingSprite_tick_position AnimatingSprite_tick_velocity
      leftWalker_fields vadd_def vmult_def createVector_def)

lemma walkerGame_fields:
  "cows walkerGame = [leftWalker, Cow_new (createVector 1 1), Cow_new (createVector 1 1)]"
  "followingCow walkerGame = None"
  "fence walkerGame = Fence_new VECTOR_ZERO"
  "scalars (randomSource walkerGame) = (\<lambda>n. 1)"
  by (simp_all add: walkerGame_def createObjects_fields constantRandom_def)

lemma walkerGame_movedCows:
  "fst (movedCows (1 / 30) host30 walkerGame) =
     [AnimatingSprite_tick (1 / 30) leftWalker,
      AnimatingSprite_tick (1 / 30) (Cow_new (createVector 1 1)),
      AnimatingSprite_tick (1 / 30) (Cow_new (createVector 1 1))]"
  "scalars (snd (movedCows (1 / 30) host30 walkerGame)) = (\<lambda>n. 1)"
  using forEach_Cow_tick_quiet [of "randomSource walkerGame" "1 / 30" "cows walkerGame"]
  by (simp_all add: movedCows_def targetedCows_def updateFollowingCow_def walkerGame_fields
      leftWalker_fields Cow_new_fields)

lemma walkerGame_ticked_fence:
  "fence (GameManager_tick host30 walkerGame) = Sprite_tick (1 / 30) (Fence_new VECTOR_ZERO)"
  by (simp add: valid_dt_tick [OF one_over_host30] tickBody_fence walkerGame_fields)

theorem cow_collision_response_witness:
  "one_over (frameRate host30) = Fin (1 / 30) \<and>
   cows walkerGame ! 0 = leftWalker \<and>
   targetPosition leftWalker = None \<and>
   velocity leftWalker = createVector (- 20) 0 \<and>
   position leftWalker = createVector (- 174.5) 0 \<and>
   fst (movedCows (1 / 30) host30 walkerGame) ! 0 = AnimatingSprite_tick (1 / 30) leftWalker \<and>
   isOverlapping (fence (GameManager_tick host30 walkerGame))
     (position (AnimatingSprite_tick (1 / 30) leftWalker)) \<and>
   position (cows (GameManager_tick host30 walkerGame) ! 0) = createVector (- 174.5) 0 \<and>
   velocity (cows (GameManager_tick host30 walkerGame) ! 0) = createVector 20 0 \<and>
   \<not> positionInBounds (createVector (- 174.5) 0) VECTOR_ZERO (gameBounds hostSmallCanvas) \<and>
   position (fst (cowCollisions (1 / 30) hostSmallCanvas (Fence_new VECTOR_ZERO)
                    (AnimatingSprite_tick (1 / 30) leftWalker) (drawScalar (constantRandom 1))))
     = position (AnimatingSprite_tick (1 / 30) leftWalker) \<and>
   velocity (fst (cowCollisions (1 / 30) hostSmallCanvas (Fence_new VECTOR_ZERO)
                    (AnimatingSprite_tick (1 / 30) leftWalker) (drawScalar (constantRandom 1))))
     = createVector (- 20) 0"
proof -
  let ?f = "Sprite_tick (1 / 30) (Fence_new VECTOR_ZERO)"
  let ?c = "AnimatingSprite_tick (1 / 30) leftWalker"
  let ?r = "snd (movedCows (1 / 30) host30 walkerGame)"
  have tc: "targetPosition ?c = None"
    by (simp add: AnimatingSprite_tick_targetPosition leftWalker_fields)
  have q: "\<not> scalars ?r (scalarsDrawn ?r) < 0.1 * (1 / 30)"
    by (simp add: walkerGame_movedCows)
  have q': "\<not> scalars (drawScalar (constantRandom 1))
                (scalarsDrawn (drawScalar (constantRandom 1))) < 0.1 * (1 / 30)"
    "\<not> scalars (drawScalar (constantRandom 1))
                (Suc (scalarsDrawn (drawScalar (constantRandom 1)))) < 0.1 * (1 / 30)"
    by (simp_all add: drawScalar_def constantRandom_def)
  have bk: "vadd (position ?c) (vmult (vmult (velocity ?c) (- 1)) (1 / 30))
                = createVector (- 174.5) 0"
    by (simp add: leftWalker_moved vadd_def vmult_def createVector_def)
  have again: "vadd (createVector (- 174.5) 0)
                 (vmult (vmult (vmult (velocity ?c) (- 1)) (- 1)) (1 / 30)) = position ?c"
    by (simp add: leftWalker_moved vadd_def vmult_def createVector_def)
  have o: "isOverlapping ?f (position ?c)"
    by (simp add: isOverlapping_eval ticked_new_fence leftWalker_moved positionInBounds_def
        createVector_def)
  have o': "isOverlapping (Fence_new VECTOR_ZERO) (position ?c)"
    by (simp add: isOverlapping_eval new_fence_fields leftWalker_moved positionInBounds_def
        createVector_def)
  have i: "positionInBounds (createVector (- 174.5) 0) VECTOR_ZERO (gameBounds host30)"
    by (simp add: gameBounds_host30 positionInBounds_def VECTOR_ZERO_def createVector_def)
  have n: "\<not> positionInBounds (createVector (- 174.5) 0) VECTOR_ZERO (gameBounds hostSmallCanvas)"
    by (simp add: gameBounds_hostSmallCanvas positionInBounds_def VECTOR_ZERO_def
        createVector_def)
  have in_tick: "cows (GameManager_tick host30 walkerGame) ! 0 =
                   fst (cowCollisions (1 / 30) host30 ?f ?c ?r)"
    using cow_collision_response [where h = host30 and dt = "1 / 30" and i = 0
        and g = walkerGame, THEN conjunct1]
    by (simp add: one_over_host30 walkerGame_fields walkerGame_movedCows
        walkerGame_ticked_fence)
  have fence_only:
    "position (fst (cowCollisions (1 / 30) host30 ?f ?c ?r)) = createVector (- 174.5) 0 \<and>
     velocity (fst (cowCollisions (1 / 30) host30 ?f ?c ?r)) = createVector 20 0"
    using cow_collision_response [where h = host30 and dt = "1 / 30" and f = ?f and c = ?c
        and r = ?r, THEN conjunct2, THEN conjunct2, THEN conjunct2] tc q o i
    unfolding Let_def bk
    by (simp add: leftWalker_moved(2) vmult_def createVector_def)
  have both:
    "position (fst (cowCollisions (1 / 30) hostSmallCanvas (Fence_new VECTOR_ZERO) ?c
                      (drawScalar (constantRandom 1)))) = position ?c \<and>
     velocity (fst (cowCollisions (1 / 30) hostSmallCanvas (Fence_new VECTOR_ZERO) ?c
                      (drawScalar (constantRandom 1)))) = createVector (- 20) 0"
    using cow_collision_response [where h = hostSmallCanvas and dt = "1 / 30"
        and f = "Fence_new VECTOR_ZERO" and c = ?c and r = "drawScalar (constantRandom 1)",
        THEN conjunct2, THEN conjunct2, THEN conjunct2] tc q' o' n
    unfolding Let_def bk again
    by (simp add: leftWalker_moved(2) vmult_def createVector_def)
  show ?thesis
    using in_tick fence_only both o n
    by (simp add: one_over_host30 walkerGame_fields walkerGame_movedCows leftWalker_fields
        walkerGame_ticked_fence createVector_def)
qed

section \<open>The person and the fence\<close>

text \<open>
  Claim C8, as stated, in the arithmetic of the code. With \<open>frameRate()\<close> reading 28.25
  and the right arrow key held, the person at \<open>x = 174.33\<close> moves to
  \<open>x = 175.39194690265487\<close>, which overlaps the fence; the position is decremented by
  velocity times \<open>dt\<close> and the velocity is set to zero. The decrement does not restore the
  position of the start of the tick: the person ends at \<open>x = 174.32999999999998\<close>.
\<close>

theorem person_rollback_binary64_counterexample:
  "position personAtWall64 = createVector (6133691586246083 / 2 ^ 45) 0 \<and>
   position (Sprite_tick64 (dt64 28.25)
               (setControlledDirection64 (controlledDirection hostRightKey) personAtWall64))
     = createVector (3085527760603837 / 2 ^ 44) 0 \<and>
   isOverlapping64 (Sprite_tick64 (dt64 28.25) (Fence_new VECTOR_ZERO))
     (position (Sprite_tick64 (dt64 28.25)
                  (setControlledDirection64 (controlledDirection hostRightKey) personAtWall64))) \<and>
   position (personInTick64 (dt64 28.25) hostRightKey (Fence_new VECTOR_ZERO) personAtWall64)
     = createVector (3066845793123041 / 2 ^ 44) 0 \<and>
   velocity (personInTick64 (dt64 28.25) hostRightKey (Fence_new VECTOR_ZERO) personAtWall64)
     = VECTOR_ZERO \<and>
   position (personInTick64 (dt64 28.25) hostRightKey (Fence_new VECTOR_ZERO) personAtWall64)
     \<noteq> position personAtWall64"
proof -
  let ?m = "personAtWall64\<lparr>velocity := createVector 30 0,
                            position := createVector (3085527760603837 / 2 ^ 44) 0\<rparr>"
  have o: "isOverlapping64 (Fence_new VECTOR_ZERO) (getPosition ?m)"
    by (simp add: new_fence64 getPosition_def createVector_def)
  have "personFenceCollision64 (dt64 28.25) (Fence_new VECTOR_ZERO) ?m =
          ?m\<lparr>position := createVector (3066845793123041 / 2 ^ 44) 0, velocity := VECTOR_ZERO\<rparr>"
    unfolding personFenceCollision64_def using o personAtWall64_rollback
    by (simp add: setVelocity_def setPosition_def getPosition_def getVelocity_def)
  then show ?thesis
    using personAtWall64_moved o
    by (simp add: personInTick64_def Sprite_tick64_new_fence personAtWall64_fields
        getPosition_def createVector_def)
qed

text \<open>
  Claim C8, amended. In a tick with a valid \<open>dt\<close>, let \<open>moved\<close> be the person's position after
  the movement step: the position at the start of the tick plus the controlled velocity
  times \<open>dt\<close>. If \<open>moved\<close> overlaps the fence, the person's position is \<open>moved\<close> decremented
  by the velocity times \<open>dt\<close> and the velocity is the zero vector (no bounce). If it does
  not, the position is \<open>moved\<close> and the velocity is the controlled velocity: neither
  correction is applied. (In exact arithmetic the decrement gives back the position of the
  start of the tick; in the doubles of the code it can miss it by a rounding error, which
  is why the claim does not say so.)
\<close>

theorem person_fence_rollback:
  assumes "one_over (frameRate h) = Fin dt" and "dt \<noteq> 0"
  shows "let v = vmult (controlledDirection h) Person_speed;
             moved = vadd (position (person g)) (vmult v dt);
             g' = GameManager_tick h g
         in (isOverlapping (fence g') moved \<longrightarrow>
               position (person g') = vsub moved (vmult v dt) \<and>
               velocity (person g') = VECTOR_ZERO) \<and>
            (\<not> isOverlapping (fence g') moved \<longrightarrow>
               position (person g') = moved \<and> velocity (person g') = v)"
proof -
  have t: "GameManager_tick h g = tickBody dt h g"
    using assms by (rule valid_dt_tick)
  show ?thesis
    unfolding t Let_def
    by (simp add: tickBody_person tickBody_fence personFenceCollision_def
        AnimatingSprite_tick_position AnimatingSprite_tick_velocity setControlledDirection_def
        getPosition_def getVelocity_def setPosition_def setVelocity_def)
qed

lemma personAtWall_fields:
  "position (person personAtWall) = createVector 174.5 0"
  "fence personAtWall = Fence_new VECTOR_ZERO"
  by (simp_all add: personAtWall_def Person_new_fields createObjects_fields)

theorem person_fence_rollback_witness:
  "one_over (frameRate hostRightKey) = Fin (1 / 30) \<and>
   isOverlapping (fence (GameManager_tick hostRightKey personAtWall)) (createVector 175.5 0) \<and>
   position (person (GameManager_tick hostRightKey personAtWall)) = createVector 174.5 0 \<and>
   velocity (person (GameManager_tick hostRightKey personAtWall)) = VECTOR_ZERO \<and>
   \<not> isOverlapping (fence (GameManager_tick hostRightKey (createObjects host30 (constantRandom 1))))
       (createVector 1 0) \<and>
   position (person (GameManager_tick hostRightKey (createObjects host30 (constantRandom 1))))
     = createVector 1 0 \<and>
   velocity (person (GameManager_tick hostRightKey (createObjects host30 (constantRandom 1))))
     = createVector 30 0"
proof -
  have f: "fence (GameManager_tick hostRightKey g) = Sprite_tick (1 / 30) (fence g)" for g
    by (simp add: valid_dt_tick [OF hostRightKey_reads(1)] tickBody_fence)
  have m: "vadd (createVector (349 / 2) 0) (vmult (createVector 30 0) (1 / 30))
             = createVector (351 / 2) 0"
    "vadd VECTOR_ZERO (vmult (createVector 30 0) (1 / 30)) = createVector 1 0"
    "vmult VECTOR_RIGHT Person_speed = createVector 30 0"
    "vsub (createVector (351 / 2) 0) (vmult (createVector 30 0) (1 / 30))
       = createVector (349 / 2) 0"
    by (simp_all add: vadd_def vsub_def vmult_def VECTOR_RIGHT_def VECTOR_ZERO_def Person_speed_def
        createVector_def)
  have o: "isOverlapping (Sprite_tick (1 / 30) (Fence_new VECTOR_ZERO)) (createVector (351 / 2) 0)"
    "\<not> isOverlapping (Sprite_tick (1 / 30) (Fence_new VECTOR_ZERO)) (createVector 1 0)"
    by (simp_all add: isOverlapping_eval ticked_new_fence positionInBounds_def createVector_def)
  show ?thesis
    using person_fence_rollback [OF hostRightKey_reads(1), of personAtWall]
      person_fence_rollback [OF hostRightKey_reads(1), of "createObjects host30 (constantRandom 1)"]
    by (simp add: Let_def hostRightKey_reads f personAtWall_fields createObjects_fields
        Person_new_fields m o)
qed

section \<open>The win check\<close>

lemma first_tick_180:
  "map position (cows (tickBody (1 / 30) host30 (createObjects host30 (constantRandom 180))))
     = [createVector 180 180, createVector 180 180, createVector 180 180]"
proof -
  have "map position (cows (tickBody (1 / 30) host30 (createObjects host30 (constantRandom 180))))
          = map position (cows (createObjects host30 (constantRandom 180)))"
  proof (rule tickBody_cows_atRest)
    show "followingCow (createObjects host30 (constantRandom 180)) = None"
      by (simp add: createObjects_fields)
    show "list_all atRest (cows (createObjects host30 (constantRandom 180)))"
      by (simp add: createObjects_constant_cows atRest_def Cow_new_fields)
    show "neverToggles (1 / 30) (randomSource (createObjects host30 (constantRandom 180)))"
      by (simp add: neverToggles_def createObjects_fields constantRandom_def)
  qed
  then show ?thesis
    by (simp add: createObjects_constant_cows Cow_new_fields)
qed

text \<open>
  Claim C2, as stated, with the interior bound of the fence read as its inner bound (the
  fence's size less half the edge width). Three cows stand at \<open>(180, 180)\<close>, in the wall of
  the fence and outside its inner bound; after a tick at 30 frames per second they are
  still there, and the description has been switched to the success state.
\<close>

theorem win_check_inner_bound_counterexample:
  "one_over (frameRate host30) = Fin (1 / 30) \<and>
   descriptionText (createObjects host30 (constantRandom 180)) = GameManager_descriptionInitial \<and>
   map position (cows (GameManager_tick host30 (createObjects host30 (constantRandom 180))))
     = [createVector 180 180, createVector 180 180, createVector 180 180] \<and>
   \<not> allCowsInsideInnerBound
       (GameManager_tick host30 (createObjects host30 (constantRandom 180))) \<and>
   descriptionText (GameManager_tick host30 (createObjects host30 (constantRandom 180)))
     = GameManager_descriptionSuccess \<and>
   descriptionFontSize (GameManager_tick host30 (createObjects host30 (constantRandom 180)))
     = GameManager_descriptionSuccessFontSize"
proof -
  let ?g = "tickBody (1 / 30) host30 (createObjects host30 (constantRandom 180))"
  have t: "GameManager_tick host30 g = tickBody (1 / 30) host30 g" for g
    by (rule valid_dt_tick [OF one_over_host30]) simp
  have f: "position (fence ?g) = createVector 0 0" "sprite_size (fence ?g) = createVector 400 400"
    by (simp_all add: tickBody_fence createObjects_fields ticked_new_fence)
  have l: "list_all P (cows ?g) \<longleftrightarrow> list_all (\<lambda>p. P' p) (map position (cows ?g))"
    if "\<And>c. P c = P' (position c)" for P P'
    using that by (simp add: list_all_iff)
  have inner: "\<not> allCowsInsideInnerBound ?g"
    unfolding allCowsInsideInnerBound_def
    by (subst l [where P' = "\<lambda>p. strictly_inside_rect p (position (fence ?g))
                                   (inner_bound_size (fence ?g))"])
      (simp_all add: first_tick_180 f inner_bound_size_def strictly_inside_rect_def
        Fence_edgeWidth_def createVector_def)
  have "allCowsInsideFence ?g"
    unfolding allCowsInsideFence_def
    by (subst l [where P' = "\<lambda>p. strictly_inside_rect p (position (fence ?g))
                                   (sprite_size (fence ?g))"])
      (simp_all add: first_tick_180 f strictly_inside_rect_def createVector_def)
  then have won: "descriptionText ?g = GameManager_descriptionSuccess"
    "descriptionFontSize ?g = GameManager_descriptionSuccessFontSize"
    by (simp_all add: allCowsInsideFence_iff tickBody_description)
  show ?thesis
    using inner won by (simp add: t one_over_host30 createObjects_fields first_tick_180)
qed

text \<open>
  Claim C2, amended. At the end of a tick with a valid \<open>dt\<close>: if every cow is then strictly
  inside the footprint of the fence (the rectangle of the fence's own size at the fence's
  position, not its inner bound), the description text and font size are those of the
  success state; if some cow is not, the description text and font size are as they were
  before the tick.
\<close>

theorem win_check_at_end_of_tick:
  assumes "one_over (frameRate h) = Fin dt" and "dt \<noteq> 0"
  shows "(allCowsInsideFence (GameManager_tick h g) \<longrightarrow>
            descriptionText (GameManager_tick h g) = GameManager_descriptionSuccess \<and>
            descriptionFontSize (GameManager_tick h g) = GameManager_descriptionSuccessFontSize) \<and>
         (\<not> allCowsInsideFence (GameManager_tick h g) \<longrightarrow>
            descriptionText (GameManager_tick h g) = descriptionText g \<and>
            descriptionFontSize (GameManager_tick h g) = descriptionFontSize g)"
proof -
  have t: "GameManager_tick h g = tickBody dt h g"
    using assms by (rule valid_dt_tick)
  show ?thesis
    unfolding t allCowsInsideFence_iff by (simp add: tickBody_description)
qed

theorem win_check_at_end_of_tick_witness:
  "one_over (frameRate host30) = Fin (1 / 30) \<and>
   descriptionText (createObjects host30 (constantRandom 1)) = GameManager_descriptionInitial \<and>
   allCowsInsideFence (GameManager_tick host30 (createObjects host30 (constantRandom 1))) \<and>
   descriptionText (GameManager_tick host30 (createObjects host30 (constantRandom 1)))
     = GameManager_descriptionSuccess \<and>
   descriptionFontSize (GameManager_tick host30 (createObjects host30 (constantRandom 1))) = 24 \<and>
   \<not> allCowsInsideFence (GameManager_tick host30 (createObjects host30 (constantRandom 300))) \<and>
   descriptionText (GameManager_tick host30 (createObjects host30 (constantRandom 300)))
     = GameManager_descriptionInitial \<and>
   descriptionFontSize (GameManager_tick host30 (createObjects host30 (constantRandom 300))) = 18"
proof -
  have t: "GameManager_tick host30 g = tickBody (1 / 30) host30 g" for g
    by (rule valid_dt_tick [OF one_over_host30]) simp
  show ?thesis
    using win_check_at_end_of_tick [OF one_over_host30, of "createObjects host30 (constantRandom 1)"]
      win_check_at_end_of_tick [OF one_over_host30, of "createObjects host30 (constantRandom 300)"]
    by (simp add: one_over_host30 t first_tick_allCowsInsideFence createObjects_fields
        GameManager_descriptionSuccessFontSize_def GameManager_descriptionInitialFontSize_def)
qed

section \<open>The success state is permanent\<close>

lemma tickBody_success: "inSuccessState g \<Longrightarrow> inSuccessState (tickBody d h g)"
  by (simp add: inSuccessState_def tickBody_description)

lemma GameManager_tick_success: "inSuccessState g \<Longrightarrow> inSuccessState (GameManager_tick h g)"
  by (simp add: GameManager_tick_def Let_def tickBody_success split: number.splits)

lemma apply_event_success: "inSuccessState g \<Longrightarrow> inSuccessState (apply_event e g)"
  by (cases e)
    (simp_all add: GameManager_tick_success, simp add: inSuccessState_def keyTyped_description)

text \<open>
  Claim C3. Once the description text and font size are those of the success state, they
  stay so after any sequence of \<open>tick\<close>, \<open>draw\<close> and \<open>keyTyped\<close> calls, wherever the cows
  are: no call leads back to the instructional state.
\<close>

theorem success_state_is_permanent:
  "inSuccessState g \<Longrightarrow> inSuccessState (run evs g)"
  unfolding run_def
  by (induction evs arbitrary: g) (simp_all add: apply_event_success)

theorem success_state_is_permanent_witness:
  "inSuccessState wonWithCowsOutside \<and>
   \<not> allCowsInsideFence wonWithCowsOutside \<and>
   inSuccessState (run [Tick host30, KeyTyped '' '', Draw host30, Tick hostRightKey,
                        KeyTyped '' '', Tick host30] wonWithCowsOutside)"
proof -
  have s: "inSuccessState wonWithCowsOutside"
    by (simp add: inSuccessState_def wonWithCowsOutside_def)
  have "cows wonWithCowsOutside = cows (createObjects host30 (constantRandom 300))"
    "fence wonWithCowsOutside = Fence_new VECTOR_ZERO"
    by (simp_all add: wonWithCowsOutside_def createObjects_fields)
  then have o: "\<not> allCowsInsideFence wonWithCowsOutside"
    by (simp add: allCowsInsideFence_def createObjects_constant_cows Cow_new_fields
        new_fence_fields strictly_inside_rect_def createVector_def)
  show ?thesis
    using success_state_is_permanent [OF s,
        of "[Tick host30, KeyTyped '' '', Draw host30, Tick hostRightKey,
             KeyTyped '' '', Tick host30]"] s o
    by simp
qed

section \<open>The warm-up ticks of setup\<close>

lemma skipped_ticks: "frameRate h = Fin 0 \<Longrightarrow> (GameManager_tick h ^^ n) g = g"
  by (induction n) (simp_all add: GameManager_tick_def)

lemma valid_ticks_elapsedTime:
  assumes "one_over (frameRate h) = Fin d" and "d \<noteq> 0"
  shows "elapsedTime (person ((GameManager_tick h ^^ n) g)) = elapsedTime (person g) + real n * d"
  by (induction n)
    (simp_all add: valid_dt_tick [OF assms] tickBody_person_elapsedTime algebra_simps)

text \<open>
  Claim C7, on the code. \<open>setup\<close> calls \<open>tick\<close> ten times, and each call takes its \<open>dt\<close> from
  \<open>frameRate()\<close>, not from the \<open>1 / 30\<close> that \<open>setup\<close> passes. When \<open>frameRate()\<close> reads 0,
  as before the first frame, the guard skips all ten calls and \<open>setup\<close> returns the objects
  as they were created. When \<open>frameRate()\<close> gives a valid \<open>dt\<close>, the ten calls advance the
  person's elapsed time by ten times that \<open>dt\<close>.
\<close>

theorem setup_warmup_reads_frameRate:
  "(frameRate h = Fin 0 \<longrightarrow> GameManager_setup h r = createObjects h r) \<and>
   (one_over (frameRate h) = Fin d \<and> d \<noteq> 0 \<longrightarrow>
      elapsedTime (person (GameManager_setup h r)) = 10 * d)"
  by (simp add: GameManager_setup_def skipped_ticks valid_ticks_elapsedTime
      createObjects_fields Person_new_fields)

theorem setup_warmup_reads_frameRate_witness:
  "frameRate hostBeforeFirstFrame = Fin 0 \<and>
   GameManager_setup hostBeforeFirstFrame (constantRandom 0)
     = createObjects hostBeforeFirstFrame (constantRandom 0) \<and>
   one_over (frameRate (host30\<lparr>frameRate := Fin 60\<rparr>)) = Fin (1 / 60) \<and>
   elapsedTime (person (GameManager_setup (host30\<lparr>frameRate := Fin 60\<rparr>) (constantRandom 0)))
     = 1 / 6"
  using setup_warmup_reads_frameRate [of hostBeforeFirstFrame "constantRandom 0" 0]
    setup_warmup_reads_frameRate [of "host30\<lparr>frameRate := Fin 60\<rparr>" "constantRandom 0" "1 / 60"]
  by (simp add: hostBeforeFirstFrame_def host30_def)

end
